theory Spec2Isabelle
  imports Complex_Main "HOL-Library.Word" "HOL-Library.Log_Nat"
begin

section \<open>Bookkeeping statement parser: normalization, reconciliation, edits, export\<close>

text \<open>
  A shallow embedding of the core parser module (normalizeTransactions,
  reconcileStatement, applyEdit, generateCSVExport, generateOFXExport,
  generateTransactionHash, simpleHash) and of the types module it imports.

  Modelling conventions.
  \<^item> A TypeScript field of type \<open>T | null\<close> is a \<open>T option\<close> (\<open>None\<close> is \<open>null\<close>).
    An optional field \<open>f?: T | null\<close> has three states and is a \<open>T optional\<close>;
    an optional field \<open>f?: T\<close> is a \<open>T option\<close> (\<open>None\<close> is \<open>undefined\<close>).
  \<^item> JavaScript numbers are IEEE-754 binary64 values: a \<open>jsnum\<close> is a finite value,
    given as the rational it denotes, an infinity or \<open>NaN\<close>, and every arithmetic
    operation rounds its exact result to the nearest binary64 value.
  \<^item> Strings are \<open>string\<close>; \<open>charCodeAt\<close> is the character code of a \<open>char\<close>,
    so the model covers strings of code units below 256.
  \<^item> Library functions of the JavaScript runtime whose result is fixed by the
    engine rather than by this module (date parsing and printing, number
    printing, the clock) are fields of a record \<open>js_runtime\<close> that every function
    using them takes as its first argument.
\<close>

subsection \<open>Numbers\<close>

text \<open>
  A finite number is represented by its exact value. The model has one zero: the sign
  of a zero is not observable in this module (it shows in a division by zero only, and
  the module divides by 100 only).

  \<open>rnd x\<close> is the binary64 value nearest to the real number \<open>x\<close>, a tie going to the even
  significand: with \<open>e\<close> the binary exponent of \<open>\<bar>x\<bar>\<close>, not below -1022, the values near
  \<open>x\<close> are the multiples of \<open>2\<^sup>e\<^sup>-\<^sup>5\<^sup>2\<close>; a result of magnitude \<open>2\<^sup>1\<^sup>0\<^sup>2\<^sup>4\<close> or more is an infinity.
\<close>

datatype jsnum = Fin rat | PosInf | NegInf | NaN

definition expo :: "rat \<Rightarrow> int" where
  "expo a = (if 1 \<le> a then bitlen \<lfloor>a\<rfloor> - 1 else - bitlen (\<lceil>1 / a\<rceil> - 1))"

definition roundEven :: "rat \<Rightarrow> int" where
  "roundEven q =
    (let f = \<lfloor>q\<rfloor>; d = q - of_int f
     in if d < 1 / 2 then f else if 1 / 2 < d then f + 1 else if even f then f else f + 1)"

definition rnd :: "rat \<Rightarrow> jsnum" where
  "rnd x =
    (if x = 0 then Fin 0
     else
      (let a = \<bar>x\<bar>;
           u = 2 powi (max (expo a) (- 1022) - 52);
           r = of_int (roundEven (a / u)) * u
       in if 2 powi 1024 \<le> r then (if x < 0 then NegInf else PosInf)
          else Fin (if x < 0 then - r else r)))"

fun jneg :: "jsnum \<Rightarrow> jsnum" where
  "jneg (Fin a) = Fin (- a)"
| "jneg PosInf = NegInf"
| "jneg NegInf = PosInf"
| "jneg NaN = NaN"

text \<open>\<open>Math.abs\<close>.\<close>

fun jabs :: "jsnum \<Rightarrow> jsnum" where
  "jabs (Fin a) = Fin \<bar>a\<bar>"
| "jabs PosInf = PosInf"
| "jabs NegInf = PosInf"
| "jabs NaN = NaN"

text \<open>Addition; adding zero is exact.\<close>

fun jadd :: "jsnum \<Rightarrow> jsnum \<Rightarrow> jsnum" where
  "jadd NaN y = NaN"
| "jadd x NaN = NaN"
| "jadd (Fin a) (Fin b) = (if a = 0 then Fin b else if b = 0 then Fin a else rnd (a + b))"
| "jadd PosInf NegInf = NaN"
| "jadd NegInf PosInf = NaN"
| "jadd PosInf y = PosInf"
| "jadd NegInf y = NegInf"
| "jadd (Fin a) y = y"

definition jsub :: "jsnum \<Rightarrow> jsnum \<Rightarrow> jsnum" where
  "jsub x y = jadd x (jneg y)"

fun jmul :: "jsnum \<Rightarrow> jsnum \<Rightarrow> jsnum" where
  "jmul NaN y = NaN"
| "jmul x NaN = NaN"
| "jmul (Fin a) (Fin b) = rnd (a * b)"
| "jmul (Fin a) y = (if a = 0 then NaN else if (0 < a) = (y = PosInf) then PosInf else NegInf)"
| "jmul x (Fin b) = (if b = 0 then NaN else if (0 < b) = (x = PosInf) then PosInf else NegInf)"
| "jmul x y = (if x = y then PosInf else NegInf)"

fun jdiv :: "jsnum \<Rightarrow> jsnum \<Rightarrow> jsnum" where
  "jdiv NaN y = NaN"
| "jdiv x NaN = NaN"
| "jdiv (Fin a) (Fin b) =
     (if b = 0 then (if a = 0 then NaN else if 0 < a then PosInf else NegInf) else rnd (a / b))"
| "jdiv (Fin a) y = Fin 0"
| "jdiv x (Fin b) = (if (0 \<le> b) = (x = PosInf) then PosInf else NegInf)"
| "jdiv x y = NaN"

text \<open>\<open>x > y\<close> and \<open>x < y\<close>; a comparison with \<open>NaN\<close> is false.\<close>

fun jgt :: "jsnum \<Rightarrow> jsnum \<Rightarrow> bool" where
  "jgt NaN y = False"
| "jgt x NaN = False"
| "jgt (Fin a) (Fin b) = (b < a)"
| "jgt PosInf y = (y \<noteq> PosInf)"
| "jgt x NegInf = (x \<noteq> NegInf)"
| "jgt x y = False"

definition jlt :: "jsnum \<Rightarrow> jsnum \<Rightarrow> bool" where
  "jlt x y = jgt y x"

fun isNaN :: "jsnum \<Rightarrow> bool" where
  "isNaN NaN = True"
| "isNaN x = False"

text \<open>A number in a boolean context: zero and \<open>NaN\<close> are falsy.\<close>

fun truthyN :: "jsnum \<Rightarrow> bool" where
  "truthyN (Fin a) = (a \<noteq> 0)"
| "truthyN NaN = False"
| "truthyN x = True"

text \<open>
  \<open>Math.round\<close>: the integer nearest to the value of its argument, a tie going towards
  plus infinity. No rounding error occurs: the result is a binary64 value.
\<close>

fun mathRound :: "jsnum \<Rightarrow> jsnum" where
  "mathRound (Fin a) = Fin (of_int \<lfloor>a + 1 / 2\<rfloor>)"
| "mathRound x = x"

subsection \<open>Types module\<close>

datatype 'a optional = Undefined | Null | Present 'a

record Transaction =
  rowId :: string
  postedDate :: "string option"
  description :: string
  debit :: "string option"
  credit :: "string option"
  runningBalance :: "string option"
  normalizedDate :: "string optional"
  normalizedAmount :: "jsnum optional"
  normalizedBalance :: "jsnum optional"
  originalPostedDate :: "string optional"
  originalDescription :: "string option"
  originalDebit :: "string optional"
  originalCredit :: "string optional"
  isEdited :: "bool option"
  editedFields :: "string list option"

record StatementMetadata =
  financialInstitution :: "string option"
  accountName :: "string option"
  accountNumberLastFour :: "string option"
  accountType :: "string option"
  currency :: "string option"
  statementStartDate :: "string option"
  statementEndDate :: "string option"
  openingBalance :: "string option"
  closingBalance :: "string option"
  totalDebits :: "string option"
  totalCredits :: "string option"
  normalizedOpeningBalance :: "jsnum option"
  normalizedClosingBalance :: "jsnum option"
  normalizedTotalDebits :: "jsnum option"
  normalizedTotalCredits :: "jsnum option"

datatype Severity = Error | Warning

text \<open>
  The flag's \<open>rowId\<close> and the hash record's \<open>rowId\<close> and \<open>description\<close> carry a prefix,
  since a field name is one constant per theory.
\<close>

record ValidationFlag =
  flagRowId :: "string option"
  severity :: Severity
  message :: string
  field :: "string option"
  suggestedFix :: "string option"

datatype Status = PASS | BLOCK

record ValidationResult =
  status :: Status
  flags :: "ValidationFlag list"
  isReconciled :: bool
  totalTransactions :: nat
  flaggedRowsCount :: nat

record TransactionHash =
  hashRowId :: string
  hash :: string
  date :: string
  amount :: jsnum
  hashDescription :: string
  accountLastFour :: string

subsection \<open>The JavaScript runtime\<close>

text \<open>
  \<^item> \<open>dateValue s\<close> is the time value of \<open>new Date(s)\<close> in milliseconds, \<open>None\<close> when the
    date is invalid (\<open>getTime()\<close> is \<open>NaN\<close>).
  \<^item> \<open>toISOString t\<close> is the ISO string of the date with time value \<open>t\<close>; \<open>None\<close> stands
    for a thrown exception, so that the \<open>catch\<close> branch of the source has a
    counterpart (a conforming engine throws on invalid dates only).
  \<^item> \<open>numToString x\<close> is the conversion of a number inside a template literal.
  \<^item> \<open>toFixed2 x\<close> is \<open>x.toFixed(2)\<close>.
  \<^item> \<open>nowISO\<close> is \<open>new Date().toISOString()\<close>, the only reading of the clock in the
    module (in generateOFXExport).
\<close>

record js_runtime =
  dateValue :: "string \<Rightarrow> int option"
  toISOString :: "int \<Rightarrow> string option"
  numToString :: "jsnum \<Rightarrow> string"
  toFixed2 :: "jsnum \<Rightarrow> string"
  nowISO :: string

subsection \<open>Truthiness and defaults\<close>

text \<open>\<open>!x\<close> on a string-valued slot: \<open>undefined\<close>, \<open>null\<close> and the empty string are falsy.\<close>

fun truthy :: "string option \<Rightarrow> bool" where
  "truthy None = False"
| "truthy (Some s) = (s \<noteq> [])"

fun truthyO :: "string optional \<Rightarrow> bool" where
  "truthyO (Present s) = (s \<noteq> [])"
| "truthyO _ = False"

text \<open>Copying a \<open>string | null\<close> value into a \<open>string | null | undefined\<close> slot.\<close>

fun nullable :: "'a option \<Rightarrow> 'a optional" where
  "nullable None = Null"
| "nullable (Some v) = Present v"

subsection \<open>Inline edit handler\<close>

text \<open>
  \<open>applyEdit\<close> works on the shallow copy \<open>edited = { ...transaction }\<close>: four guarded
  stores of the shadow fields, the \<open>switch\<close> on the field name (no default case), then
  the edit tracking. The function returns the copy; that \<open>push\<close> also appends to the
  array object the argument shares with the copy is not visible in the returned value.
\<close>

definition storeOriginals :: "Transaction \<Rightarrow> string \<Rightarrow> Transaction \<Rightarrow> Transaction" where
  "storeOriginals transaction fld edited =
    (let e1 = (if \<not> truthyO (originalPostedDate edited) \<and> fld = ''postedDate''
               then edited\<lparr>originalPostedDate := nullable (postedDate transaction)\<rparr> else edited);
         e2 = (if \<not> truthy (originalDescription e1) \<and> fld = ''description''
               then e1\<lparr>originalDescription := Some (description transaction)\<rparr> else e1);
         e3 = (if \<not> truthyO (originalDebit e2) \<and> fld = ''debit''
               then e2\<lparr>originalDebit := nullable (debit transaction)\<rparr> else e2);
         e4 = (if \<not> truthyO (originalCredit e3) \<and> fld = ''credit''
               then e3\<lparr>originalCredit := nullable (credit transaction)\<rparr> else e3)
     in e4)"

definition applySwitch :: "string \<Rightarrow> string option \<Rightarrow> Transaction \<Rightarrow> Transaction" where
  "applySwitch fld newValue edited =
    (if fld = ''postedDate'' then edited\<lparr>postedDate := newValue\<rparr>
     else if fld = ''description''
       then edited\<lparr>description := (case newValue of None \<Rightarrow> [] | Some s \<Rightarrow> s)\<rparr>
     else if fld = ''debit'' then edited\<lparr>debit := newValue\<rparr>
     else if fld = ''credit'' then edited\<lparr>credit := newValue\<rparr>
     else edited)"

definition markEdited :: "string \<Rightarrow> Transaction \<Rightarrow> Transaction" where
  "markEdited fld edited =
    (let e1 = edited\<lparr>isEdited := Some True\<rparr>;
         fs = (case editedFields e1 of None \<Rightarrow> [] | Some xs \<Rightarrow> xs)
     in e1\<lparr>editedFields := Some (if fld \<in> set fs then fs else fs @ [fld])\<rparr>)"

definition applyEdit :: "Transaction \<Rightarrow> string \<Rightarrow> string option \<Rightarrow> Transaction" where
  "applyEdit transaction fld newValue =
     markEdited fld (applySwitch fld newValue (storeOriginals transaction fld transaction))"

text \<open>A sequence of edits to one field, applied left to right.\<close>

definition applyEdits :: "Transaction \<Rightarrow> string \<Rightarrow> string option list \<Rightarrow> Transaction" where
  "applyEdits transaction fld vs = foldl (\<lambda>t v. applyEdit t fld v) transaction vs"

text \<open>A transaction as extraction builds it: raw fields only, no shadow set.\<close>

definition extracted :: "string \<Rightarrow> string option \<Rightarrow> string \<Rightarrow> string option \<Rightarrow> string option
    \<Rightarrow> string option \<Rightarrow> Transaction" where
  "extracted rid d desc db cr bal =
     \<lparr>rowId = rid, postedDate = d, description = desc, debit = db, credit = cr,
      runningBalance = bal, normalizedDate = Null, normalizedAmount = Null,
      normalizedBalance = Null, originalPostedDate = Undefined,
      originalDescription = None, originalDebit = Undefined, originalCredit = Undefined,
      isEdited = Some False, editedFields = Some []\<rparr>"

subsection \<open>Numbers from strings\<close>

text \<open>
  \<open>s.replace(/[^0-9.-]/g, '')\<close> keeps the digits, the dot and the minus sign.
  \<open>parseFloat\<close> is modelled on such strings: an optional minus sign, then the longest
  prefix of the form digits, digits-dot-digits or dot-digits, and \<open>NaN\<close> when there is
  none. The result is the binary64 value nearest to the decimal the prefix denotes.
\<close>

definition isDigit :: "char \<Rightarrow> bool" where
  "isDigit c = (c \<in> set ''0123456789'')"

definition digitsValue :: "string \<Rightarrow> nat" where
  "digitsValue ds = foldl (\<lambda>n c. 10 * n + (of_char c - 48)) 0 ds"

definition stripNonNumeric :: "string \<Rightarrow> string" where
  "stripNonNumeric s = filter (\<lambda>c. c \<in> set ''0123456789.-'') s"

definition parseFloat :: "string \<Rightarrow> jsnum" where
  "parseFloat s =
    (let neg = (s \<noteq> [] \<and> hd s = CHR ''-'');
         r = (if neg then tl s else s);
         ip = takeWhile isDigit r;
         r' = dropWhile isDigit r;
         fp = (case r' of [] \<Rightarrow> [] | c # r'' \<Rightarrow> if c = CHR ''.'' then takeWhile isDigit r'' else [])
     in if ip = [] \<and> fp = [] then NaN
        else rnd ((if neg then - 1 else 1) *
               (of_nat (digitsValue ip) + of_nat (digitsValue fp) / 10 ^ length fp)))"

text \<open>\<open>Math.round(x * 100) / 100\<close>: the product and the quotient are rounded to binary64.\<close>

definition round2 :: "jsnum \<Rightarrow> jsnum" where
  "round2 x = jdiv (mathRound (jmul x (Fin 100))) (Fin 100)"

subsection \<open>Normalization\<close>

text \<open>
  The callback of \<open>transactions.map\<close>: it returns the normalized copy of one
  transaction together with the flags it pushes onto \<open>errors\<close>.
\<close>

definition normalizeDate :: "js_runtime \<Rightarrow> Transaction \<Rightarrow> Transaction \<Rightarrow> Transaction \<times> ValidationFlag list" where
  "normalizeDate R tx normalized =
    (case postedDate tx of
       None \<Rightarrow> (normalized, [])
     | Some d \<Rightarrow>
        if d = [] then (normalized, [])
        else (case dateValue R d of
                None \<Rightarrow> (normalized,
                  [\<lparr>flagRowId = Some (rowId tx), severity = Error,
                    message = ''Invalid date format: '' @ d,
                    field = Some ''postedDate'', suggestedFix = None\<rparr>])
              | Some t \<Rightarrow>
                 (case toISOString R t of
                    Some isoStr \<Rightarrow>
                      (normalized\<lparr>normalizedDate := Present (takeWhile (\<lambda>c. c \<noteq> CHR ''T'') isoStr)\<rparr>, [])
                  | None \<Rightarrow> (normalized,
                      [\<lparr>flagRowId = Some (rowId tx), severity = Error,
                        message = ''Date parsing error: '' @ d,
                        field = Some ''postedDate'', suggestedFix = None\<rparr>]))))"

definition normalizeAmount :: "Transaction \<Rightarrow> jsnum" where
  "normalizeAmount tx =
    (let amount = Fin 0;
         amount = (if truthy (debit tx)
                   then (let debitNum = parseFloat (stripNonNumeric (the (debit tx)))
                         in if \<not> isNaN debitNum then jneg (jabs debitNum) else amount)
                   else amount);
         amount = (if truthy (credit tx)
                   then (let creditNum = parseFloat (stripNonNumeric (the (credit tx)))
                         in if \<not> isNaN creditNum then jabs creditNum else amount)
                   else amount)
     in round2 amount)"

definition normalizeBalance :: "Transaction \<Rightarrow> Transaction \<Rightarrow> Transaction" where
  "normalizeBalance tx normalized =
    (if truthy (runningBalance tx)
     then (let balanceNum = parseFloat (stripNonNumeric (the (runningBalance tx)))
           in if \<not> isNaN balanceNum
              then normalized\<lparr>normalizedBalance := Present (round2 balanceNum)\<rparr>
              else normalized)
     else normalized)"

definition normalizeTx :: "js_runtime \<Rightarrow> Transaction \<Rightarrow> Transaction \<times> ValidationFlag list" where
  "normalizeTx R tx =
    (let (n1, errs) = normalizeDate R tx tx;
         n2 = n1\<lparr>normalizedAmount := Present (normalizeAmount tx)\<rparr>;
         n3 = normalizeBalance tx n2
     in (n3, errs))"

record NormalizeResult =
  normalized :: "Transaction list"
  errors :: "ValidationFlag list"

definition normalizeTransactions :: "js_runtime \<Rightarrow> Transaction list \<Rightarrow> NormalizeResult" where
  "normalizeTransactions R transactions =
     \<lparr>normalized = map (\<lambda>tx. fst (normalizeTx R tx)) transactions,
      errors = concat (map (\<lambda>tx. snd (normalizeTx R tx)) transactions)\<rparr>"

subsection \<open>Reconciliation\<close>

text \<open>\<open>x || 0\<close> on a number slot: an absent value, zero and \<open>NaN\<close> give 0.\<close>

fun balOr0 :: "jsnum option \<Rightarrow> jsnum" where
  "balOr0 None = Fin 0"
| "balOr0 (Some v) = (if truthyN v then v else Fin 0)"

fun numOr0 :: "jsnum optional \<Rightarrow> jsnum" where
  "numOr0 (Present v) = (if truthyN v then v else Fin 0)"
| "numOr0 _ = Fin 0"

text \<open>The sign of inequality in the mismatch message, as its three UTF-8 bytes.\<close>

definition neqSign :: string where
  "neqSign = [CHR 0xE2, CHR 0x89, CHR 0xA0]"

definition balanceFlags :: "js_runtime \<Rightarrow> jsnum \<Rightarrow> jsnum \<Rightarrow> jsnum \<Rightarrow> ValidationFlag list" where
  "balanceFlags R openingBal transactionSum closingBal =
    (let calculatedClosing = jadd openingBal transactionSum;
         difference = jabs (jsub calculatedClosing closingBal)
     in if jgt difference (rnd (1 / 100))
        then [\<lparr>flagRowId = None, severity = Error,
               message = ''Reconciliation mismatch: Opening ('' @ numToString R openingBal
                 @ '') + Transactions ('' @ numToString R transactionSum @ '') '' @ neqSign
                 @ '' Closing ('' @ numToString R closingBal @ ''). Difference: ''
                 @ numToString R difference,
               field = None, suggestedFix = None\<rparr>]
        else [])"

text \<open>The loop over the running balances, with \<open>expectedBalance\<close> as its state.\<close>

fun runningBalanceFlags :: "js_runtime \<Rightarrow> jsnum \<Rightarrow> Transaction list \<Rightarrow> ValidationFlag list" where
  "runningBalanceFlags R expectedBalance [] = []"
| "runningBalanceFlags R expectedBalance (tx # txs) =
    (let expected = jadd expectedBalance (numOr0 (normalizedAmount tx))
     in (case normalizedBalance tx of
           Present b \<Rightarrow>
             if jgt (jabs (jsub expected b)) (rnd (1 / 100))
             then [\<lparr>flagRowId = Some (rowId tx), severity = Warning,
                    message = ''Running balance mismatch: Expected '' @ numToString R expected
                      @ '', got '' @ numToString R b,
                    field = Some ''runningBalance'', suggestedFix = None\<rparr>]
             else []
         | _ \<Rightarrow> [])
        @ runningBalanceFlags R expected txs)"

text \<open>\<open>a < b\<close> on two Date objects compares their time values; with an invalid date it is false.\<close>

fun dateLess :: "int option \<Rightarrow> int option \<Rightarrow> bool" where
  "dateLess (Some a) (Some b) = (a < b)"
| "dateLess _ _ = False"

definition dateRangeFlag :: "js_runtime \<Rightarrow> int option \<Rightarrow> int option \<Rightarrow> Transaction \<Rightarrow> ValidationFlag list" where
  "dateRangeFlag R startDate endDate tx =
    (case normalizedDate tx of
       Present nd \<Rightarrow>
         if nd = [] then []
         else (let txDate = dateValue R nd
               in if dateLess txDate startDate \<or> dateLess endDate txDate
                  then [\<lparr>flagRowId = Some (rowId tx), severity = Warning,
                         message = ''Transaction date '' @ nd @ '' outside statement period'',
                         field = Some ''postedDate'', suggestedFix = None\<rparr>]
                  else [])
     | _ \<Rightarrow> [])"

definition dateRangeFlags :: "js_runtime \<Rightarrow> StatementMetadata \<Rightarrow> Transaction list \<Rightarrow> ValidationFlag list" where
  "dateRangeFlags R metadata transactions =
    (if truthy (statementStartDate metadata) \<and> truthy (statementEndDate metadata)
     then (let startDate = dateValue R (the (statementStartDate metadata));
               endDate = dateValue R (the (statementEndDate metadata))
           in concat (map (dateRangeFlag R startDate endDate) transactions))
     else [])"

definition reconcileStatement :: "js_runtime \<Rightarrow> StatementMetadata \<Rightarrow> Transaction list \<Rightarrow> ValidationResult" where
  "reconcileStatement R metadata transactions =
    (let openingBal = balOr0 (normalizedOpeningBalance metadata);
         closingBal = balOr0 (normalizedClosingBalance metadata);
         transactionSum =
           foldl (\<lambda>sum tx. jadd sum (numOr0 (normalizedAmount tx))) (Fin 0) transactions;
         fs = balanceFlags R openingBal transactionSum closingBal
              @ runningBalanceFlags R openingBal transactions
              @ dateRangeFlags R metadata transactions;
         reconciled = (length (filter (\<lambda>f. severity f = Error) fs) = 0)
     in \<lparr>status = (if reconciled then PASS else BLOCK),
         flags = fs,
         isReconciled = reconciled,
         totalTransactions = length transactions,
         flaggedRowsCount = length (remdups (map flagRowId fs))\<rparr>)"

subsection \<open>Duplicate protection\<close>

text \<open>
  \<open>simpleHash\<close>: the accumulator is a 32-bit integer, since \<open>hash & hash\<close> reduces each
  intermediate sum to 32 bits (two's complement); the result is the hexadecimal
  numeral of its absolute value.
\<close>

definition hexDigit :: "nat \<Rightarrow> char" where
  "hexDigit n = ''0123456789abcdef'' ! (n mod 16)"

fun toString16 :: "nat \<Rightarrow> string" where
  "toString16 n = (if n < 16 then [hexDigit n] else toString16 (n div 16) @ [hexDigit n])"

declare toString16.simps [simp del]

definition hashStep :: "32 word \<Rightarrow> char \<Rightarrow> 32 word" where
  "hashStep h c = push_bit 5 h - h + of_nat (of_char c)"

definition simpleHash :: "string \<Rightarrow> string" where
  "simpleHash input = toString16 (nat \<bar>sint (foldl hashStep 0 input)\<bar>)"

text \<open>A slot inside a template literal.\<close>

fun showStr :: "string optional \<Rightarrow> string" where
  "showStr Undefined = ''undefined''"
| "showStr Null = ''null''"
| "showStr (Present s) = s"

fun showNum :: "js_runtime \<Rightarrow> jsnum optional \<Rightarrow> string" where
  "showNum R Undefined = ''undefined''"
| "showNum R Null = ''null''"
| "showNum R (Present x) = numToString R x"

definition hashInput :: "js_runtime \<Rightarrow> Transaction \<Rightarrow> string \<Rightarrow> string" where
  "hashInput R transaction acct =
     rowId transaction @ ''|'' @ showStr (normalizedDate transaction) @ ''|''
       @ showNum R (normalizedAmount transaction) @ ''|'' @ description transaction @ ''|'' @ acct"

definition generateTransactionHash :: "js_runtime \<Rightarrow> Transaction \<Rightarrow> string \<Rightarrow> TransactionHash" where
  "generateTransactionHash R transaction acct =
     \<lparr>hashRowId = rowId transaction,
      hash = simpleHash (hashInput R transaction acct),
      date = (case normalizedDate transaction of Present s \<Rightarrow> s | _ \<Rightarrow> []),
      amount = numOr0 (normalizedAmount transaction),
      hashDescription = description transaction,
      accountLastFour = acct\<rparr>"

definition generateFITID :: "js_runtime \<Rightarrow> Transaction \<Rightarrow> string \<Rightarrow> string" where
  "generateFITID R transaction acct =
    (let h = take 32 (hash (generateTransactionHash R transaction acct))
     in h @ replicate (32 - length h) CHR ''0'')"

subsection \<open>Export\<close>

fun joinWith :: "string \<Rightarrow> string list \<Rightarrow> string" where
  "joinWith sep [] = []"
| "joinWith sep [x] = x"
| "joinWith sep (x # y # ys) = x @ sep @ joinWith sep (y # ys)"

definition csvRow :: "js_runtime \<Rightarrow> Transaction \<Rightarrow> string" where
  "csvRow R tx =
    (let d = (case normalizedDate tx of Present s \<Rightarrow> s | _ \<Rightarrow> []);
         desc = [CHR 0x22]
                @ concat (map (\<lambda>c. if c = CHR 0x22 then [c, c] else [c]) (description tx))
                @ [CHR 0x22];
         amt = (case normalizedAmount tx of Present v \<Rightarrow> toFixed2 R v | _ \<Rightarrow> ''0.00'');
         bal = (case normalizedBalance tx of Present v \<Rightarrow> toFixed2 R v | _ \<Rightarrow> ''0.00'')
     in d @ '','' @ desc @ '','' @ amt @ '','' @ bal)"

definition generateCSVExport :: "js_runtime \<Rightarrow> Transaction list \<Rightarrow> bool \<Rightarrow> string option" where
  "generateCSVExport R transactions isReady =
    (if \<not> isReady then None
     else Some (joinWith [CHR 0x0A] (''date,description,amount,balance'' # map (csvRow R) transactions)))"

text \<open>\<open>s?.replace(/-/g, '') || dflt\<close>.\<close>

definition compactDate :: "string option \<Rightarrow> string \<Rightarrow> string" where
  "compactDate d dflt =
    (case d of None \<Rightarrow> dflt
     | Some s \<Rightarrow> (let r = filter (\<lambda>c. c \<noteq> CHR ''-'') s in if r = [] then dflt else r))"

definition ofxTransaction :: "js_runtime \<Rightarrow> string \<Rightarrow> Transaction \<Rightarrow> string" where
  "ofxTransaction R acct tx =
    (let fitid = generateFITID R tx acct;
         dtposted = (case normalizedDate tx of
                       Present s \<Rightarrow> compactDate (Some s) ''20240101'' | _ \<Rightarrow> ''20240101'');
         trnamt = toFixed2 R (numOr0 (normalizedAmount tx));
         memo = take 255 (description tx);
         trntype = (case normalizedAmount tx of
                      Present v \<Rightarrow> if truthyN v \<and> jlt v (Fin 0) then ''DEBIT'' else ''CREDIT''
                    | _ \<Rightarrow> ''CREDIT'')
     in ''<STMTTRN>'' @ [CHR 0x0A]
        @ ''<TRNTYPE>'' @ trntype @ [CHR 0x0A]
        @ ''<DTPOSTED>'' @ dtposted @ [CHR 0x0A]
        @ ''<TRNAMT>'' @ trnamt @ [CHR 0x0A]
        @ ''<FITID>'' @ fitid @ [CHR 0x0A]
        @ ''<MEMO>'' @ memo @ [CHR 0x0A]
        @ ''</STMTTRN>'' @ [CHR 0x0A])"

definition ofxHeader :: "string list" where
  "ofxHeader =
    [''OFXHEADER:100'', ''SECURITY:NONE'', ''ENCODING:USASCII'', ''CHARSET:1252'',
     ''COMPRESSION:NONE'', ''OLDFILEFORMAT:NO'', ''NEWFILEFORMAT:YES'', [],
     ''<OFX>'', ''<SIGNONMSGSRSV1>'', ''<SONRS>'', ''<STATUS>'', ''<CODE>0'',
     ''<SEVERITY>INFO'', ''</STATUS>'']"

definition linesOf :: "string list \<Rightarrow> string" where
  "linesOf ls = concat (map (\<lambda>l. l @ [CHR 0x0A]) ls)"

definition generateOFXExport :: "js_runtime \<Rightarrow> StatementMetadata \<Rightarrow> Transaction list \<Rightarrow> bool \<Rightarrow> string option" where
  "generateOFXExport R metadata transactions isReady =
    (if \<not> isReady then None
     else
      (let startDate = compactDate (statementStartDate metadata) ''20240101'';
           endDate = compactDate (statementEndDate metadata) ''20240131'';
           acct = (if truthy (accountNumberLastFour metadata)
                   then the (accountNumberLastFour metadata) else ''0000'');
           closingBal = balOr0 (normalizedClosingBalance metadata);
           dtserver = take 14 (filter (\<lambda>c. c \<notin> set ''-:T.'') (nowISO R));
           curdef = (if truthy (currency metadata) then the (currency metadata) else ''USD'')
       in Some
         (linesOf ofxHeader
          @ linesOf [''<DTSERVER>'' @ dtserver, ''<LANGUAGE>ENG'', ''</SONRS>'',
               ''</SIGNONMSGSRSV1>'', ''<BANKMSGSRSV1>'', ''<STMTTRNRS>'', ''<STATUS>'',
               ''<CODE>0'', ''<SEVERITY>INFO'', ''</STATUS>'', ''<STMTRS>'',
               ''<CURDEF>'' @ curdef, ''<BANKACCTFROM>'', ''<BANKID>000000000'',
               ''<ACCTID>'' @ acct, ''<ACCTTYPE>CHECKING'', ''</BANKACCTFROM>'',
               ''<BANKTRANLIST>'', ''<DTSTART>'' @ startDate, ''<DTEND>'' @ endDate]
          @ concat (map (ofxTransaction R acct) transactions)
          @ linesOf [''</BANKTRANLIST>'', ''<LEDGERBAL>'',
               ''<BALAMT>'' @ toFixed2 R closingBal, ''<DTASOF>'' @ endDate,
               ''</LEDGERBAL>'', ''</STMTRS>'', ''</STMTTRNRS>'', ''</BANKMSGSRSV1>'',
               ''</OFX>''])))"

subsection \<open>A runtime and a statement for concrete evaluation\<close>

text \<open>
  \<open>demoRuntime\<close> fixes the runtime on the values the examples below use. Dates are
  tabulated: a date-only ISO string denotes midnight UTC of that day, and any string
  outside the table is taken as invalid. \<open>showCents\<close> prints a finite number as the decimal
  with at most two fractional digits nearest to it, which is its JavaScript form when the
  number is the binary64 value nearest to an amount in whole cents; \<open>fixed2\<close> rounds to
  the nearest cent, a tie going to the larger magnitude.
\<close>

definition decDigit :: "nat \<Rightarrow> char" where
  "decDigit n = ''0123456789'' ! (n mod 10)"

fun toString10 :: "nat \<Rightarrow> string" where
  "toString10 n = (if n < 10 then [decDigit n] else toString10 (n div 10) @ [decDigit n])"

declare toString10.simps [simp del]

fun showCents :: "jsnum \<Rightarrow> string" where
  "showCents (Fin x) =
    (let n = nat \<lfloor>\<bar>x\<bar> * 100 + 1 / 2\<rfloor>
     in (if x < 0 \<and> 0 < n then ''-'' else [])
        @ toString10 (n div 100)
        @ (if n mod 100 = 0 then []
           else ''.'' @ [decDigit (n mod 100 div 10)]
                @ (if n mod 10 = 0 then [] else [decDigit n])))"
| "showCents PosInf = ''Infinity''"
| "showCents NegInf = ''-Infinity''"
| "showCents NaN = ''NaN''"

fun fixed2 :: "jsnum \<Rightarrow> string" where
  "fixed2 (Fin x) =
    (let n = nat \<lfloor>\<bar>x\<bar> * 100 + 1 / 2\<rfloor>
     in (if x < 0 then ''-'' else [])
        @ toString10 (n div 100) @ ''.'' @ [decDigit (n mod 100 div 10), decDigit n])"
| "fixed2 PosInf = ''Infinity''"
| "fixed2 NegInf = ''-Infinity''"
| "fixed2 NaN = ''NaN''"

definition demoDates :: "(string \<times> int) list" where
  "demoDates =
    [(''2024-01-01'', 1704067200000), (''2024-01-02'', 1704153600000),
     (''2024-01-03'', 1704240000000), (''2024-01-05'', 1704412800000),
     (''2024-01-08'', 1704672000000), (''2024-01-10'', 1704844800000),
     (''2024-01-15'', 1705276800000), (''2024-01-20'', 1705708800000),
     (''2024-01-31'', 1706659200000), (''2024-02-05'', 1707091200000)]"

definition demoRuntime :: js_runtime where
  "demoRuntime =
    \<lparr>dateValue = map_of demoDates,
     toISOString = (\<lambda>t. map_option (\<lambda>d. d @ ''T00:00:00.000Z'')
                           (map_of (map (\<lambda>(d, v). (v, d)) demoDates) t)),
     numToString = showCents,
     toFixed2 = fixed2,
     nowISO = ''2024-02-01T09:30:00.000Z''\<rparr>"

text \<open>The statement that the demo loader of the application builds.\<close>

definition sampleMetadata :: StatementMetadata where
  "sampleMetadata =
    \<lparr>financialInstitution = Some ''First National Bank'',
     accountName = Some ''Business Checking Account'',
     accountNumberLastFour = Some ''4567'',
     accountType = Some ''Checking'',
     currency = Some ''USD'',
     statementStartDate = Some ''2024-01-01'',
     statementEndDate = Some ''2024-01-31'',
     openingBalance = Some ''5000.00'',
     closingBalance = Some ''5847.50'',
     totalDebits = Some ''2500.00'',
     totalCredits = Some ''3347.50'',
     normalizedOpeningBalance = Some (Fin 5000),
     normalizedClosingBalance = Some (Fin (11695 / 2)),
     normalizedTotalDebits = None,
     normalizedTotalCredits = None\<rparr>"

definition sampleTx :: "string \<Rightarrow> string \<Rightarrow> string \<Rightarrow> string option \<Rightarrow> string option
    \<Rightarrow> string \<Rightarrow> rat \<Rightarrow> rat \<Rightarrow> Transaction" where
  "sampleTx rid d desc db cr bal amt nbal =
     \<lparr>rowId = rid, postedDate = Some d, description = desc, debit = db, credit = cr,
      runningBalance = Some bal, normalizedDate = Present d,
      normalizedAmount = Present (Fin amt), normalizedBalance = Present (Fin nbal),
      originalPostedDate = Undefined,
      originalDescription = None, originalDebit = Undefined, originalCredit = Undefined,
      isEdited = Some False, editedFields = None\<rparr>"

definition sampleTransactions :: "Transaction list" where
  "sampleTransactions =
    [sampleTx ''TXN001'' ''2024-01-02''
       ''DEPOSIT - Customer Payment for Invoice #INV-2024-001 - ABC Corporation - Reference: PO-5678''
       None (Some ''1500.00'') ''6500.00'' 1500 6500,
     sampleTx ''TXN002'' ''2024-01-03''
       ''CHECK #1001 - Office Supplies & Equipment - Staples Business''
       (Some ''250.00'') None ''6250.00'' (- 250) 6250,
     sampleTx ''TXN003'' ''2024-01-05''
       ''ACH TRANSFER OUT - Monthly Payroll Distribution - Employee Salaries & Benefits - Batch ID: PAY-20240105''
       (Some ''3000.00'') None ''3250.00'' (- 3000) 3250,
     sampleTx ''TXN004'' ''2024-01-08''
       ''WIRE TRANSFER IN - Client Retainer Payment - XYZ Consulting LLC - Invoice #INV-2024-002''
       None (Some ''2500.00'') ''5750.00'' 2500 5750,
     sampleTx ''TXN005'' ''2024-01-10''
       ''BANK FEE - Monthly Service Charge & Wire Transfer Fee''
       (Some ''25.00'') None ''5725.00'' (- 25) 5725,
     sampleTx ''TXN006'' ''2024-01-15''
       ''DEPOSIT - Refund for Returned Equipment - Original Purchase Order #PO-5600 - Vendor Credit''
       None (Some ''347.50'') ''6072.50'' (695 / 2) (12145 / 2),
     sampleTx ''TXN007'' ''2024-01-20''
       ''CHECK #1002 - Quarterly Insurance Premium - General Liability & Property Coverage - Policy #POL-2024-789''
       (Some ''225.00'') None ''5847.50'' (- 225) (11695 / 2)]"

text \<open>Two rows that cancel, for a statement whose balances were not parsed.\<close>

definition offsettingTransactions :: "Transaction list" where
  "offsettingTransactions =
    [sampleTx ''TXN001'' ''2024-01-02'' ''DEPOSIT'' None (Some ''1500.00'') ''1500.00'' 1500 1500,
     sampleTx ''TXN002'' ''2024-01-03'' ''CHECK #1001'' (Some ''1500.00'') None ''0.00'' (- 1500) 0]"

definition unparsedBalances :: StatementMetadata where
  "unparsedBalances =
     sampleMetadata\<lparr>openingBalance := None, closingBalance := None,
       normalizedOpeningBalance := None, normalizedClosingBalance := None\<rparr>"

text \<open>A row whose posted date is not a date.\<close>

definition unparsableDate :: Transaction where
  "unparsableDate = extracted ''row_3'' (Some ''not a date'') ''WIRE IN'' None (Some ''75.00'') None"

text \<open>The second demo row after its posted date was edited to a string that is no date.\<close>

definition staleDate :: Transaction where
  "staleDate = applyEdit (sampleTransactions ! 1) ''postedDate'' (Some ''garbage'')"

text \<open>An extracted row after one edit of its description.\<close>

definition editedRow :: Transaction where
  "editedRow =
     applyEdit (extracted ''row_1'' (Some ''2024-01-03'') ''CHECK'' (Some ''250.00'') None None)
       ''description'' (Some ''CHECK 1001'')"

text \<open>Two rows that differ in the description only.\<close>

definition checkAa :: Transaction where
  "checkAa =
     sampleTx ''TXN002'' ''2024-01-03'' ''CHECK Aa'' (Some ''250.00'') None ''6250.00'' (- 250) 6250"

definition checkBB :: Transaction where
  "checkBB =
     sampleTx ''TXN002'' ''2024-01-03'' ''CHECK BB'' (Some ''250.00'') None ''6250.00'' (- 250) 6250"

subsection \<open>Quantities as the specification words them\<close>

text \<open>The number of distinct row identifiers among the flags, statement-level flags left out.\<close>

definition specFlaggedRows :: "ValidationFlag list \<Rightarrow> nat" where
  "specFlaggedRows fs =
     length (remdups (map the (filter (\<lambda>r. r \<noteq> None) (map flagRowId fs))))"

text \<open>
  The amount before rounding, in the words of the specification: start from 0; a debit
  that is present and parses as a number gives minus its absolute value; a credit that
  is present and parses then gives plus its absolute value.
\<close>

definition specAmount :: "Transaction \<Rightarrow> jsnum" where
  "specAmount tx =
    (let a0 = Fin 0;
         a1 = (case debit tx of
                 Some d \<Rightarrow> (if isNaN (parseFloat (stripNonNumeric d)) then a0
                            else jneg (jabs (parseFloat (stripNonNumeric d))))
               | None \<Rightarrow> a0);
         a2 = (case credit tx of
                 Some c \<Rightarrow> (if isNaN (parseFloat (stripNonNumeric c)) then a1
                            else jabs (parseFloat (stripNonNumeric c)))
               | None \<Rightarrow> a1)
     in a2)"

text \<open>The sum of a list of numbers, accumulated from 0 in the order of the list.\<close>

definition sumInOrder :: "jsnum list \<Rightarrow> jsnum" where
  "sumInOrder xs = foldl jadd (Fin 0) xs"

text \<open>A slot that holds no value.\<close>

fun absent :: "'a optional \<Rightarrow> bool" where
  "absent (Present v) = False"
| "absent x = True"

text \<open>The 32-bit accumulator of simpleHash, before the absolute value is taken.\<close>

definition hashAccumulator :: "string \<Rightarrow> 32 word" where
  "hashAccumulator input = foldl hashStep 0 input"

text \<open>A string parses as a calendar date when it has a time value that prints as an ISO string.\<close>

definition dateParses :: "js_runtime \<Rightarrow> string \<Rightarrow> bool" where
  "dateParses R d = (case dateValue R d of None \<Rightarrow> False | Some t \<Rightarrow> toISOString R t \<noteq> None)"

section \<open>Properties of binary64 rounding\<close>

text \<open>
  \<open>rnd x\<close> is characterised by the binade of \<open>x\<close> and the multiple of the unit in the
  last place nearest to it; numbers with a significand below \<open>2\<^sup>5\<^sup>3\<close> are not rounded.
\<close>

lemma bitlen_eqI: "0 \<le> e \<Longrightarrow> 2 ^ nat e \<le> n \<Longrightarrow> n < 2 ^ nat (e + 1) \<Longrightarrow> bitlen n = e + 1"
proof -
  assume e: "0 \<le> e" and lo: "2 ^ nat e \<le> n" and hi: "n < 2 ^ nat (e + 1)"
  have n: "nat (e + 1) - 1 = nat e" using e by simp
  have "bitlen n \<le> e + 1"
    using e hi by (simp add: bitlen_le_iff_power)
  moreover have "e + 1 \<le> bitlen n"
    using lo by (simp only: bitlen_ge_iff_power n) simp
  ultimately show ?thesis by simp
qed

lemma expo_unique:
  assumes lo: "2 powi e \<le> a" and hi: "a < 2 powi (e + 1)"
  shows "expo a = e"
proof (cases "0 \<le> e")
  case True
  have p: "(2::rat) powi e = of_int (2 ^ nat e)" "(2::rat) powi (e + 1) = of_int (2 ^ nat (e + 1))"
    using True by (simp_all add: power_int_def)
  have "1 \<le> (2::rat) powi e"
    using True by (simp add: power_int_def)
  then have a1: "1 \<le> a" using lo by linarith
  have "2 ^ nat e \<le> \<lfloor>a\<rfloor>"
    using lo unfolding p by (simp add: le_floor_iff)
  moreover have "\<lfloor>a\<rfloor> < 2 ^ nat (e + 1)"
    using hi unfolding p by (simp add: floor_less_iff)
  ultimately have "bitlen \<lfloor>a\<rfloor> = e + 1"
    using True by (intro bitlen_eqI)
  then show ?thesis using a1 by (simp add: expo_def)
next
  case False
  then have neg: "e < 0" by simp
  define k where "k = - e - 1"
  have k0: "0 \<le> k" using neg by (simp add: k_def)
  have p: "(2::rat) powi e = 1 / of_int (2 ^ nat (k + 1))" "(2::rat) powi (e + 1) = 1 / of_int (2 ^ nat k)"
    using neg by (auto simp: power_int_def k_def field_simps nat_add_distrib)
  have "0 < (2::rat) powi e" by simp
  then have apos: "0 < a"
    using lo by linarith
  have "(2::rat) powi (e + 1) \<le> 1"
    unfolding p using k0 by (simp add: field_simps)
  then have a1: "\<not> 1 \<le> a" using hi by linarith
  let ?y = "1 / a"
  have ylo: "of_int (2 ^ nat k) < ?y"
    using hi apos unfolding p by (simp add: field_simps)
  have yhi: "?y \<le> of_int (2 ^ nat (k + 1))"
    using lo apos unfolding p by (simp add: field_simps)
  have "2 ^ nat k < \<lceil>?y\<rceil>"
    using ylo by (simp only: less_ceiling_iff)
  then have 1: "2 ^ nat k \<le> \<lceil>?y\<rceil> - 1" by simp
  have "\<lceil>?y\<rceil> \<le> 2 ^ nat (k + 1)"
    using yhi by (simp only: ceiling_le_iff)
  then have 2: "\<lceil>?y\<rceil> - 1 < 2 ^ nat (k + 1)" by simp
  have "bitlen (\<lceil>?y\<rceil> - 1) = k + 1"
    using k0 1 2 by (intro bitlen_eqI)
  then show ?thesis using a1 by (simp add: expo_def k_def)
qed

lemma roundEven_near:
  assumes "\<bar>q - of_int m\<bar> < 1 / 2"
  shows "roundEven q = m"
proof (cases "of_int m \<le> q")
  case True
  then have f: "\<lfloor>q\<rfloor> = m"
    using assms by (intro floor_unique) auto
  show ?thesis using assms True by (simp add: roundEven_def f Let_def)
next
  case False
  then have f: "\<lfloor>q\<rfloor> = m - 1"
    using assms by (intro floor_unique) auto
  show ?thesis using assms False by (auto simp: roundEven_def f Let_def)
qed

lemma roundEven_tie:
  assumes "q = of_int m + 1 / 2 \<or> q = of_int m - 1 / 2" and "even m"
  shows "roundEven q = m"
proof -
  from assms(1) show ?thesis
  proof
    assume q: "q = of_int m + 1 / 2"
    then have f: "\<lfloor>q\<rfloor> = m"
      by (intro floor_unique) auto
    have d: "q - of_int m = 1 / 2" using q by simp
    show ?thesis
      unfolding roundEven_def Let_def f d using assms(2) by simp
  next
    assume q: "q = of_int m - 1 / 2"
    then have f: "\<lfloor>q\<rfloor> = m - 1"
      by (intro floor_unique) auto
    have d: "q - of_int (m - 1) = 1 / 2" using q by simp
    show ?thesis
      unfolding roundEven_def Let_def f d using assms(2) by simp
  qed
qed

lemma rnd_binade:
  assumes e: "- 1022 \<le> e"
    and lo: "2 powi e \<le> \<bar>x\<bar>" and hi: "\<bar>x\<bar> < 2 powi (e + 1)"
    and re: "roundEven (\<bar>x\<bar> / 2 powi (e - 52)) = m"
    and r: "of_int m * 2 powi (e - 52) < (2::rat) powi 1024"
  shows "rnd x = Fin (if x < 0 then - (of_int m * 2 powi (e - 52)) else of_int m * 2 powi (e - 52))"
proof -
  have "0 < (2::rat) powi e" by simp
  then have "0 < \<bar>x\<bar>"
    using lo by linarith
  then have x0: "x \<noteq> 0" by simp
  have ex: "max (expo \<bar>x\<bar>) (- 1022) = e"
    using expo_unique [OF lo hi] e by simp
  have nr: "\<not> 2 powi 1024 \<le> rat_of_int m * 2 powi (e - 52)"
    using r by (simp only: not_le)
  show ?thesis
    by (simp only: rnd_def Let_def ex re x0 nr if_False)
qed

lemma rnd_near:
  assumes "- 1022 \<le> e" and "2 powi e \<le> \<bar>x\<bar>" and "\<bar>x\<bar> < 2 powi (e + 1)"
    and "\<bar>\<bar>x\<bar> / 2 powi (e - 52) - of_int m\<bar> < 1 / 2"
    and "of_int m * 2 powi (e - 52) < (2::rat) powi 1024"
  shows "rnd x = Fin (if x < 0 then - (of_int m * 2 powi (e - 52)) else of_int m * 2 powi (e - 52))"
  using assms(1-3) roundEven_near [OF assms(4)] assms(5) by (rule rnd_binade)

lemma rnd_tie:
  assumes "- 1022 \<le> e" and "2 powi e \<le> \<bar>x\<bar>" and "\<bar>x\<bar> < 2 powi (e + 1)"
    and "\<bar>x\<bar> / 2 powi (e - 52) = of_int m + 1 / 2 \<or> \<bar>x\<bar> / 2 powi (e - 52) = of_int m - 1 / 2"
    and "even m"
    and "of_int m * 2 powi (e - 52) < (2::rat) powi 1024"
  shows "rnd x = Fin (if x < 0 then - (of_int m * 2 powi (e - 52)) else of_int m * 2 powi (e - 52))"
  using assms(1-3) roundEven_tie [OF assms(4,5)] assms(6) by (rule rnd_binade)

lemma rnd_cent: "rnd (1 / 100) = Fin (5764607523034235 / 576460752303423488)"
  using rnd_near [of "- 7" "1 / 100" 5764607523034235] by simp

lemma rnd_dyadic:
  assumes n0: "n \<noteq> 0" and nb: "\<bar>n\<bar> < 2 ^ 53" and j: "j \<le> 1000"
  shows "rnd (of_int n / 2 ^ j) = Fin (of_int n / 2 ^ j)"
proof -
  define b where "b = bitlen \<bar>n\<bar>"
  have npos: "0 < \<bar>n\<bar>" using n0 by simp
  from bitlen_bounds [OF npos]
  have bl: "2 ^ nat (b - 1) \<le> \<bar>n\<bar>" and bh: "\<bar>n\<bar> < 2 ^ nat b"
    by (simp_all add: b_def)
  have b1: "1 \<le> b"
    using npos bitlen_eq_zero_iff [of "\<bar>n\<bar>"] bitlen_nonneg [of "\<bar>n\<bar>"] by (simp add: b_def)
  have b53: "b \<le> 53"
    using nb by (simp add: b_def bitlen_le_iff_power)
  define e where "e = b - 1 - int j"
  define m where "m = \<bar>n\<bar> * 2 ^ nat (53 - b)"
  let ?x = "of_int n / 2 ^ j :: rat"
  have ax: "\<bar>?x\<bar> = of_int \<bar>n\<bar> * 2 powi (- int j)"
    by (simp add: power_int_minus field_simps)
  have pe: "(2::rat) powi e = 2 powi (b - 1) * 2 powi (- int j)"
    unfolding e_def by (simp add: power_int_add [symmetric])
  have pe1: "(2::rat) powi (e + 1) = 2 powi b * 2 powi (- int j)"
    unfolding e_def by (simp add: power_int_add [symmetric])
  have pb: "(2::rat) powi (b - 1) = of_int (2 ^ nat (b - 1))" "(2::rat) powi b = of_int (2 ^ nat b)"
    using b1 by (simp_all add: power_int_def)
  have pj: "0 < (2::rat) powi (- int j)" by simp
  have lo: "2 powi e \<le> \<bar>?x\<bar>"
    unfolding ax pe pb using bl pj by (intro mult_right_mono) (simp_all only: of_int_le_iff less_imp_le)
  have hi: "\<bar>?x\<bar> < 2 powi (e + 1)"
    unfolding ax pe1 pb using bh pj by (intro mult_strict_right_mono) (simp_all only: of_int_less_iff)
  have pm: "(2::rat) powi (53 - b) = of_int (2 ^ nat (53 - b))"
    using b53 by (simp add: power_int_def)
  have q: "\<bar>?x\<bar> / 2 powi (e - 52) = of_int m"
  proof -
    have inv: "1 / (2::rat) powi (e - 52) = 2 powi (52 - e)"
      using power_int_minus [of "2::rat" "e - 52"] by (simp add: divide_inverse)
    have "\<bar>?x\<bar> / 2 powi (e - 52) = \<bar>?x\<bar> * (1 / 2 powi (e - 52))"
      by simp
    also have "\<dots> = of_int \<bar>n\<bar> * (2 powi (- int j) * 2 powi (52 - e))"
      unfolding ax inv by (simp only: mult.assoc)
    also have "2 powi (- int j) * 2 powi (52 - e) = (2::rat) powi (53 - b)"
      unfolding e_def by (simp add: power_int_add [symmetric])
    finally show ?thesis by (simp add: pm m_def)
  qed
  have val: "of_int m * 2 powi (e - 52) = \<bar>?x\<bar>"
    using q by (simp add: field_simps)
  have "\<bar>?x\<bar> < 2 ^ 53"
  proof -
    have "\<bar>?x\<bar> \<le> of_int \<bar>n\<bar>"
      by (simp add: field_simps mult_le_cancel_left1 self_le_power)
    also have "\<dots> < 2 ^ 53" using nb by (metis of_int_less_iff of_int_numeral of_int_power)
    finally show ?thesis .
  qed
  also have "(2::rat) ^ 53 < 2 powi 1024" by simp
  finally have r: "rat_of_int m * 2 powi (e - 52) < 2 powi 1024"
    unfolding val .
  have ee: "- 1022 \<le> e"
    using b1 j by (simp add: e_def)
  have "rnd ?x = Fin (if ?x < 0 then - \<bar>?x\<bar> else \<bar>?x\<bar>)"
    using rnd_near [OF ee lo hi _ r] q unfolding val by simp
  then show ?thesis by (simp add: abs_if)
qed

lemma rnd_numeral [simp]:
  "numeral w < (9007199254740992::int) \<Longrightarrow> rnd (numeral w) = Fin (numeral w)"
  "numeral w < (9007199254740992::int) \<Longrightarrow> rnd (- numeral w) = Fin (- numeral w)"
  "numeral w < (9007199254740992::int) \<Longrightarrow> rnd (numeral w / 2) = Fin (numeral w / 2)"
  "numeral w < (9007199254740992::int) \<Longrightarrow> rnd (- (numeral w / 2)) = Fin (- (numeral w / 2))"
  using rnd_dyadic [of "numeral w" 0] rnd_dyadic [of "- numeral w" 0]
    rnd_dyadic [of "numeral w" 1] rnd_dyadic [of "- numeral w" 1]
  by simp_all

lemma rnd_zero [simp]: "rnd 0 = Fin 0"
  by (simp add: rnd_def)

lemma rnd_one [simp]: "rnd 1 = Fin 1"
  using rnd_dyadic [of 1 0] by simp

lemma jadd_zero [simp]: "jadd (Fin 0) y = y" "jadd y (Fin 0) = y"
  by (cases y; simp)+

lemma jsub_zero [simp]: "jsub y (Fin 0) = y"
  by (simp add: jsub_def)

text \<open>
  Sums in binary64 are not the sums of the decimals that the operands stand for: 0.1 + 0.2
  is 0.30000000000000004 (a tie, resolved to the even significand), the difference between 5000.01 and 5000 exceeds 0.01, and so
  does the sum of 100 and -99.99.
\<close>

lemma rnd_decimals:
  "rnd (1 / 10) = Fin (3602879701896397 / 36028797018963968)"
  "rnd (1 / 5) = Fin (3602879701896397 / 18014398509481984)"
  "rnd (500001 / 100) = Fin (2748784566998139 / 549755813888)"
  "rnd (- (9999 / 100)) = Fin (- (7036170730324623 / 70368744177664))"
  using rnd_near [of "- 4" "1 / 10" 7205759403792794]
    rnd_near [of "- 3" "2 / 10" 7205759403792794]
    rnd_near [of 12 "500001 / 100" 5497569133996278]
    rnd_near [of 6 "- 9999 / 100" 7036170730324623]
  by simp_all

lemma binary64_sums:
  "jadd (rnd (1 / 10)) (rnd (1 / 5)) = Fin (1351079888211149 / 4503599627370496)"
  "jsub (Fin 5000) (rnd (500001 / 100)) = Fin (- (5497558139 / 549755813888))"
  "jadd (Fin 100) (rnd (- (9999 / 100))) = Fin (703687441777 / 70368744177664)"
  "jgt (Fin (5497558139 / 549755813888)) (rnd (1 / 100))"
  "jgt (Fin (703687441777 / 70368744177664)) (rnd (1 / 100))"
  using rnd_tie [of "- 2" "3602879701896397 / 36028797018963968 + 3602879701896397 / 18014398509481984"
        5404319552844596]
    rnd_near [of "- 7" "5000 - 2748784566998139 / 549755813888" 5764607523160064]
    rnd_near [of "- 7" "100 - 7036170730324623 / 70368744177664" 5764607523037184]
  by (simp_all add: rnd_decimals rnd_cent jsub_def)

section \<open>Properties of the edit handler\<close>

text \<open>
  C10. For a field name outside postedDate, description, debit and credit, applyEdit
  leaves the raw fields and the four original-value shadows of the transaction as they
  were, and still returns a transaction with isEdited true and the field name added to
  editedFields: the earlier entries are kept in their order, and the name is appended
  unless it is among them already.
\<close>

theorem applyEdit_unknown_field:
  assumes "fld \<notin> {''postedDate'', ''description'', ''debit'', ''credit''}"
  shows "postedDate (applyEdit t fld v) = postedDate t
       \<and> description (applyEdit t fld v) = description t
       \<and> debit (applyEdit t fld v) = debit t
       \<and> credit (applyEdit t fld v) = credit t
       \<and> runningBalance (applyEdit t fld v) = runningBalance t
       \<and> rowId (applyEdit t fld v) = rowId t
       \<and> originalPostedDate (applyEdit t fld v) = originalPostedDate t
       \<and> originalDescription (applyEdit t fld v) = originalDescription t
       \<and> originalDebit (applyEdit t fld v) = originalDebit t
       \<and> originalCredit (applyEdit t fld v) = originalCredit t
       \<and> isEdited (applyEdit t fld v) = Some True
       \<and> (\<exists>fs. editedFields (applyEdit t fld v) = Some fs \<and> fld \<in> set fs)
       \<and> editedFields (applyEdit t fld v)
           = Some (let earlier = (case editedFields t of None \<Rightarrow> [] | Some fs \<Rightarrow> fs)
                   in if fld \<in> set earlier then earlier else earlier @ [fld])"
  using assms
  by (simp add: applyEdit_def markEdited_def applySwitch_def storeOriginals_def Let_def)

theorem applyEdit_unknown_field_witness:
  "''runningBalance'' \<notin> {''postedDate'', ''description'', ''debit'', ''credit''}
   \<and> editedFields editedRow = Some [''description'']
   \<and> debit (applyEdit editedRow ''runningBalance'' (Some ''9.99'')) = Some ''250.00''
   \<and> runningBalance (applyEdit editedRow ''runningBalance'' (Some ''9.99'')) = None
   \<and> isEdited (applyEdit editedRow ''runningBalance'' (Some ''9.99'')) = Some True
   \<and> editedFields (applyEdit editedRow ''runningBalance'' (Some ''9.99''))
       = Some [''description'', ''runningBalance'']
   \<and> editedFields (applyEdit (applyEdit editedRow ''runningBalance'' (Some ''9.99''))
        ''runningBalance'' None) = Some [''description'', ''runningBalance'']"
proof -
  have h: "''runningBalance'' \<notin> {''postedDate'', ''description'', ''debit'', ''credit''}"
    by simp
  have e: "editedFields editedRow = Some [''description'']" "debit editedRow = Some ''250.00''"
    "runningBalance editedRow = None"
    by (simp_all add: editedRow_def applyEdit_def markEdited_def applySwitch_def
        storeOriginals_def extracted_def Let_def)
  have e2: "editedFields (applyEdit editedRow ''runningBalance'' (Some ''9.99''))
       = Some [''description'', ''runningBalance'']"
    using applyEdit_unknown_field [OF h, of editedRow "Some ''9.99''"] by (simp add: e)
  show ?thesis
    using h applyEdit_unknown_field [OF h, of editedRow "Some ''9.99''"]
      applyEdit_unknown_field [OF h, of "applyEdit editedRow ''runningBalance'' (Some ''9.99'')" None]
    by (simp add: e e2)
qed

text \<open>
  Once a shadow holds a non-empty string, no later edit changes it; and the first edit
  of a field whose shadow is still falsy copies the current raw value into it.
\<close>

lemma applyEdit_shadow_kept:
  "truthyO (originalPostedDate t) \<Longrightarrow> originalPostedDate (applyEdit t fld v) = originalPostedDate t"
  "truthy (originalDescription t) \<Longrightarrow> originalDescription (applyEdit t fld v) = originalDescription t"
  "truthyO (originalDebit t) \<Longrightarrow> originalDebit (applyEdit t fld v) = originalDebit t"
  "truthyO (originalCredit t) \<Longrightarrow> originalCredit (applyEdit t fld v) = originalCredit t"
  by (simp_all add: applyEdit_def markEdited_def applySwitch_def storeOriginals_def Let_def)

lemma applyEdit_shadow_first:
  "\<not> truthyO (originalPostedDate t) \<Longrightarrow>
     originalPostedDate (applyEdit t ''postedDate'' v) = nullable (postedDate t)"
  "\<not> truthy (originalDescription t) \<Longrightarrow>
     originalDescription (applyEdit t ''description'' v) = Some (description t)"
  "\<not> truthyO (originalDebit t) \<Longrightarrow> originalDebit (applyEdit t ''debit'' v) = nullable (debit t)"
  "\<not> truthyO (originalCredit t) \<Longrightarrow> originalCredit (applyEdit t ''credit'' v) = nullable (credit t)"
  by (simp_all add: applyEdit_def markEdited_def applySwitch_def storeOriginals_def Let_def)

lemma applyEdits_shadow_kept:
  "truthyO (originalPostedDate t) \<Longrightarrow> originalPostedDate (applyEdits t fld vs) = originalPostedDate t"
  unfolding applyEdits_def
  by (induction vs arbitrary: t) (simp_all add: applyEdit_shadow_kept)

text \<open>
  The audit invariant on the inputs where the code keeps it: a posted date that is a
  non-empty string before the first edit is what the shadow holds after any number of
  edits of postedDate.
\<close>

lemma applyEdits_postedDate_nonempty:
  assumes "\<not> truthyO (originalPostedDate t)" and "truthy (postedDate t)" and "vs \<noteq> []"
  shows "originalPostedDate (applyEdits t ''postedDate'' vs) = nullable (postedDate t)"
proof -
  obtain v ws where vs: "vs = v # ws"
    using assms(3) by (cases vs) auto
  let ?t1 = "applyEdit t ''postedDate'' v"
  have first: "originalPostedDate ?t1 = nullable (postedDate t)"
    using assms(1) by (rule applyEdit_shadow_first)
  have "truthyO (originalPostedDate ?t1)"
    using assms(2) by (cases "postedDate t") (simp_all add: first)
  then have "originalPostedDate (applyEdits ?t1 ''postedDate'' ws) = originalPostedDate ?t1"
    by (rule applyEdits_shadow_kept)
  then show ?thesis
    by (simp add: vs applyEdits_def first)
qed

text \<open>
  C3. After any sequence of one or more edits of one editable field, the shadow of that
  field is meant to hold the value the field had before the first edit, also when that
  value is the none-sentinel or the empty string. The guard \<open>!edited.original<Field>\<close>
  cannot tell a shadow that stores \<open>null\<close> or \<open>''\<close> from one that was never stored: for a
  transaction extracted with no posted date, two edits of postedDate leave the first
  edited value in the shadow, and for one extracted with an empty description two edits
  of description do the same.
\<close>

theorem applyEdit_shadow_overwritten:
  "postedDate (extracted ''row_1'' None ''CHECK 1001'' (Some ''250.00'') None None) = None
   \<and> originalPostedDate
       (applyEdit (extracted ''row_1'' None ''CHECK 1001'' (Some ''250.00'') None None)
          ''postedDate'' (Some ''2024-01-05'')) = Null
   \<and> originalPostedDate
       (applyEdits (extracted ''row_1'' None ''CHECK 1001'' (Some ''250.00'') None None)
          ''postedDate'' [Some ''2024-01-05'', Some ''2024-01-06'']) = Present ''2024-01-05''
   \<and> description (extracted ''row_2'' (Some ''2024-01-03'') [] (Some ''250.00'') None None) = []
   \<and> originalDescription
       (applyEdits (extracted ''row_2'' (Some ''2024-01-03'') [] (Some ''250.00'') None None)
          ''description'' [Some ''RENT'', Some ''RENT MAY'']) = Some ''RENT''"
  by (simp add: applyEdits_def applyEdit_def markEdited_def applySwitch_def
      storeOriginals_def Let_def extracted_def)

section \<open>Properties of the reconciliation gate\<close>

lemma foldl_sum_amounts:
  "foldl (\<lambda>sum tx. jadd sum (numOr0 (normalizedAmount tx))) a ts
     = foldl jadd a (map (\<lambda>tx. numOr0 (normalizedAmount tx)) ts)"
  by (induction ts arbitrary: a) simp_all

lemma sum_amounts_map:
  "sumInOrder (map (\<lambda>tx. numOr0 (normalizedAmount tx)) ts)
     = sumInOrder (map numOr0 (map normalizedAmount ts))"
  by (simp add: comp_def)

text \<open>Every flag of the two per-row checks carries a row identifier and is a warning.\<close>

lemma runningBalanceFlags_rows:
  "f \<in> set (runningBalanceFlags R e ts) \<Longrightarrow> flagRowId f \<noteq> None \<and> severity f = Warning"
  by (induction ts arbitrary: e) (auto simp: Let_def split: optional.splits if_splits)

lemma dateRangeFlags_rows:
  "f \<in> set (dateRangeFlags R m ts) \<Longrightarrow> flagRowId f \<noteq> None \<and> severity f = Warning"
  by (auto simp: dateRangeFlags_def dateRangeFlag_def Let_def split: optional.splits if_splits)

lemma filter_row_warnings:
  "(\<And>f. f \<in> set fs \<Longrightarrow> flagRowId f \<noteq> None \<and> severity f = Warning) \<Longrightarrow>
     filter (\<lambda>f. flagRowId f = None) fs = [] \<and> filter (\<lambda>f. severity f = Error) fs = []"
  by (induction fs) auto

lemma row_flags_filters [simp]:
  "filter (\<lambda>f. flagRowId f = None) (runningBalanceFlags R e ts) = []"
  "filter (\<lambda>f. severity f = Error) (runningBalanceFlags R e ts) = []"
  "filter (\<lambda>f. flagRowId f = None) (dateRangeFlags R m ts) = []"
  "filter (\<lambda>f. severity f = Error) (dateRangeFlags R m ts) = []"
  using filter_row_warnings [of "runningBalanceFlags R e ts"] runningBalanceFlags_rows [of _ R e ts]
    filter_row_warnings [of "dateRangeFlags R m ts"] dateRangeFlags_rows [of _ R m ts]
  by blast+

lemma flags_reconcile:
  "flags (reconcileStatement R m ts) =
     balanceFlags R (balOr0 (normalizedOpeningBalance m))
        (sumInOrder (map (\<lambda>tx. numOr0 (normalizedAmount tx)) ts))
        (balOr0 (normalizedClosingBalance m))
     @ runningBalanceFlags R (balOr0 (normalizedOpeningBalance m)) ts
     @ dateRangeFlags R m ts"
  by (simp add: reconcileStatement_def Let_def foldl_sum_amounts sumInOrder_def)

lemma status_reconcile:
  "status (reconcileStatement R m ts) =
     (if filter (\<lambda>f. severity f = Error) (flags (reconcileStatement R m ts)) = [] then PASS else BLOCK)"
  by (simp add: reconcileStatement_def Let_def)

lemma flaggedRowsCount_reconcile:
  "flaggedRowsCount (reconcileStatement R m ts)
     = length (remdups (map flagRowId (flags (reconcileStatement R m ts))))"
  by (simp add: reconcileStatement_def Let_def)

text \<open>The demo statement raises no per-row flag, and its amounts sum to 847.50.\<close>

lemma sample_amounts:
  "map normalizedAmount sampleTransactions
     = map (\<lambda>a. Present (Fin a)) [1500, - 250, - 3000, 2500, - 25, 695 / 2, - 225]"
  by (simp add: sampleTransactions_def sampleTx_def)

lemma sum_of_example_amounts:
  "sumInOrder (map numOr0 (map (\<lambda>a. Present (Fin a)) [1500, - 250, - 3000, 2500, - 25, 695 / 2, - 225]))
     = Fin (1695 / 2)"
  by (simp add: sumInOrder_def)

lemma sample_running: "runningBalanceFlags R (Fin 5000) sampleTransactions = []"
  by (simp add: sampleTransactions_def sampleTx_def jsub_def rnd_cent)

lemma demo_dateValue:
  "dateValue demoRuntime ''2024-01-01'' = Some 1704067200000"
  "dateValue demoRuntime ''2024-01-31'' = Some 1706659200000"
  "dateValue demoRuntime ''2024-01-02'' = Some 1704153600000"
  "dateValue demoRuntime ''2024-01-03'' = Some 1704240000000"
  "dateValue demoRuntime ''2024-01-05'' = Some 1704412800000"
  "dateValue demoRuntime ''2024-01-08'' = Some 1704672000000"
  "dateValue demoRuntime ''2024-01-10'' = Some 1704844800000"
  "dateValue demoRuntime ''2024-01-15'' = Some 1705276800000"
  "dateValue demoRuntime ''2024-01-20'' = Some 1705708800000"
  "dateValue demoRuntime ''2024-02-05'' = Some 1707091200000"
  by (simp_all add: demoRuntime_def demoDates_def)

lemma sample_dates:
  "statementStartDate m = Some ''2024-01-01'' \<Longrightarrow> statementEndDate m = Some ''2024-01-31'' \<Longrightarrow>
   dateRangeFlags demoRuntime m sampleTransactions = []"
  by (simp add: dateRangeFlags_def dateRangeFlag_def sampleTransactions_def sampleTx_def
      demo_dateValue)

lemma sample_flags_6000:
  "map flagRowId (flags (reconcileStatement demoRuntime
       (sampleMetadata\<lparr>normalizedClosingBalance := Some (Fin 6000)\<rparr>) sampleTransactions)) = [None]"
proof -
  let ?m = "sampleMetadata\<lparr>normalizedClosingBalance := Some (Fin 6000)\<rparr>"
  have o: "balOr0 (normalizedOpeningBalance ?m) = Fin 5000"
    "balOr0 (normalizedClosingBalance ?m) = Fin 6000"
    by (simp_all add: sampleMetadata_def)
  have d: "dateRangeFlags demoRuntime ?m sampleTransactions = []"
    by (rule sample_dates) (simp_all add: sampleMetadata_def)
  have s: "sumInOrder (map (\<lambda>tx. numOr0 (normalizedAmount tx)) sampleTransactions) = Fin (1695 / 2)"
    unfolding sum_amounts_map sample_amounts by (rule sum_of_example_amounts)
  show ?thesis
    unfolding flags_reconcile o d s sample_running
    by (simp add: balanceFlags_def Let_def jsub_def rnd_cent)
qed

text \<open>
  C1. reconcileStatement takes as calculated closing balance the opening balance plus
  the sum of the normalized amounts, accumulated in binary64 from 0 in the order of the
  rows, an absent amount counting 0. When the absolute difference between it and the
  stated closing balance exceeds 0.01, the result has exactly one statement-level flag,
  of severity error, whose message ends with the difference, and the status is BLOCK;
  when the difference does not exceed 0.01 there is no statement-level flag. With opening
  balance 5000, stated closing balance 6000 and the amounts 1500, -250, -3000, 2500, -25,
  347.50, -225 the result has exactly one statement-level error flag and status BLOCK.
\<close>

theorem reconcile_balance_identity:
  "(let r = reconcileStatement R m ts;
        calc = jadd (balOr0 (normalizedOpeningBalance m))
                 (sumInOrder (map (\<lambda>tx. numOr0 (normalizedAmount tx)) ts));
        difference = jabs (jsub calc (balOr0 (normalizedClosingBalance m)))
    in (jgt difference (rnd (1 / 100)) \<longrightarrow>
          (\<exists>f pre. filter (\<lambda>f. flagRowId f = None) (flags r) = [f] \<and> severity f = Error
                \<and> message f = pre @ numToString R difference)
          \<and> status r = BLOCK)
     \<and> (\<not> jgt difference (rnd (1 / 100)) \<longrightarrow> filter (\<lambda>f. flagRowId f = None) (flags r) = [])
     \<and> (normalizedOpeningBalance m = Some (Fin 5000) \<and> normalizedClosingBalance m = Some (Fin 6000)
          \<and> map normalizedAmount ts
              = map (\<lambda>a. Present (Fin a)) [1500, - 250, - 3000, 2500, - 25, 695 / 2, - 225]
         \<longrightarrow> length (filter (\<lambda>f. flagRowId f = None \<and> severity f = Error) (flags r)) = 1
             \<and> status r = BLOCK))"
proof -
  let ?r = "reconcileStatement R m ts"
  let ?sum = "sumInOrder (map (\<lambda>tx. numOr0 (normalizedAmount tx)) ts)"
  let ?calc = "jadd (balOr0 (normalizedOpeningBalance m)) ?sum"
  let ?diff = "jabs (jsub ?calc (balOr0 (normalizedClosingBalance m)))"
  have over: "jgt ?diff (rnd (1 / 100)) \<longrightarrow>
          (\<exists>f pre. filter (\<lambda>f. flagRowId f = None) (flags ?r) = [f] \<and> severity f = Error
                \<and> message f = pre @ numToString R ?diff)
          \<and> status ?r = BLOCK"
    by (simp add: status_reconcile flags_reconcile balanceFlags_def Let_def)
  have within: "\<not> jgt ?diff (rnd (1 / 100)) \<longrightarrow>
          filter (\<lambda>f. flagRowId f = None) (flags ?r) = []"
    by (simp add: flags_reconcile balanceFlags_def Let_def)
  have example: "normalizedOpeningBalance m = Some (Fin 5000)
          \<and> normalizedClosingBalance m = Some (Fin 6000)
          \<and> map normalizedAmount ts
              = map (\<lambda>a. Present (Fin a)) [1500, - 250, - 3000, 2500, - 25, 695 / 2, - 225]
         \<longrightarrow> length (filter (\<lambda>f. flagRowId f = None \<and> severity f = Error) (flags ?r)) = 1
             \<and> status ?r = BLOCK"
  proof (intro impI, elim conjE)
    assume o: "normalizedOpeningBalance m = Some (Fin 5000)"
      and c: "normalizedClosingBalance m = Some (Fin 6000)"
      and a: "map normalizedAmount ts
              = map (\<lambda>a. Present (Fin a)) [1500, - 250, - 3000, 2500, - 25, 695 / 2, - 225]"
    have s: "?sum = Fin (1695 / 2)"
      unfolding sum_amounts_map a by (rule sum_of_example_amounts)
    have e: "filter (\<lambda>f. flagRowId f = None \<and> severity f = Error) fs
             = filter (\<lambda>f. severity f = Error) (filter (\<lambda>f. flagRowId f = None) fs)"
      for fs :: "ValidationFlag list"
      by (simp add: conj_commute)
    show "length (filter (\<lambda>f. flagRowId f = None \<and> severity f = Error) (flags ?r)) = 1
             \<and> status ?r = BLOCK"
      unfolding e
      by (simp add: status_reconcile flags_reconcile balanceFlags_def Let_def o c s jsub_def rnd_cent)
  qed
  show ?thesis
    unfolding Let_def using over within example by blast
qed

theorem reconcile_balance_identity_witness:
  "status (reconcileStatement demoRuntime (sampleMetadata\<lparr>normalizedClosingBalance := Some (Fin 6000)\<rparr>)
       sampleTransactions) = BLOCK
   \<and> length (filter (\<lambda>f. flagRowId f = None \<and> severity f = Error)
        (flags (reconcileStatement demoRuntime
           (sampleMetadata\<lparr>normalizedClosingBalance := Some (Fin 6000)\<rparr>) sampleTransactions))) = 1
   \<and> filter (\<lambda>f. flagRowId f = None)
        (flags (reconcileStatement demoRuntime sampleMetadata sampleTransactions)) = []
   \<and> \<not> jgt (jabs (jsub (jadd (balOr0 (normalizedOpeningBalance sampleMetadata))
                 (sumInOrder (map (\<lambda>tx. numOr0 (normalizedAmount tx)) sampleTransactions)))
               (balOr0 (normalizedClosingBalance sampleMetadata)))) (rnd (1 / 100))"
proof -
  let ?m = "sampleMetadata\<lparr>normalizedClosingBalance := Some (Fin 6000)\<rparr>"
  have h1: "normalizedOpeningBalance ?m = Some (Fin 5000)
      \<and> normalizedClosingBalance ?m = Some (Fin 6000)
      \<and> map normalizedAmount sampleTransactions
          = map (\<lambda>a. Present (Fin a)) [1500, - 250, - 3000, 2500, - 25, 695 / 2, - 225]"
    by (simp add: sampleMetadata_def sample_amounts)
  have s: "sumInOrder (map (\<lambda>tx. numOr0 (normalizedAmount tx)) sampleTransactions) = Fin (1695 / 2)"
    unfolding sum_amounts_map sample_amounts by (rule sum_of_example_amounts)
  have h2: "\<not> jgt (jabs (jsub (jadd (balOr0 (normalizedOpeningBalance sampleMetadata))
                 (sumInOrder (map (\<lambda>tx. numOr0 (normalizedAmount tx)) sampleTransactions)))
               (balOr0 (normalizedClosingBalance sampleMetadata)))) (rnd (1 / 100))"
    unfolding s by (simp add: sampleMetadata_def jsub_def rnd_cent)
  from reconcile_balance_identity [where R = demoRuntime and ts = sampleTransactions and m = ?m]
    reconcile_balance_identity [where R = demoRuntime and ts = sampleTransactions
      and m = sampleMetadata] h1 h2
  show ?thesis
    unfolding Let_def by blast
qed

text \<open>
  The tolerance is decided on binary64 values: with opening balance 5000, the closing
  balance nearest to 5000.01 and no rows, the difference is 0.010000000000218279 and the
  statement is blocked; so is a statement without balances whose amounts are 100 and the
  number nearest to -99.99, and one whose amounts are the numbers nearest to 968.53 and
  3885.98 and then -4854.5, where the first sum is rounded to 4854.51.
\<close>

lemma one_cent_differences_block:
  "status (reconcileStatement R
      (sampleMetadata\<lparr>normalizedClosingBalance := Some (rnd (500001 / 100))\<rparr>) []) = BLOCK"
  "status (reconcileStatement R unparsedBalances
      [sampleTx ''TXN001'' ''2024-01-02'' ''DEPOSIT'' None (Some ''100.00'') ''100.00'' 100 100,
       (sampleTx ''TXN002'' ''2024-01-03'' ''CHECK'' (Some ''99.99'') None ''0.01'' 0 0)
         \<lparr>normalizedAmount := Present (rnd (- (9999 / 100))), normalizedBalance := Null\<rparr>]) = BLOCK"
  "status (reconcileStatement R unparsedBalances
      (map (\<lambda>a. (extracted ''row_1'' None ''ROW'' None None None)\<lparr>normalizedAmount := Present a\<rparr>)
         [rnd (96853 / 100), rnd (194299 / 50), Fin (- (9709 / 2))])) = BLOCK"
proof -
  have a: "rnd (96853 / 100) = Fin (4259639987399557 / 4398046511104)"
    using rnd_near [of 9 "96853 / 100" 8519279974799114] by simp
  have b: "rnd (194299 / 50) = Fin (8545360390609961 / 2199023255552)"
    using rnd_near [of 11 "194299 / 50" 8545360390609961] by simp
  have s: "rnd (4259639987399557 / 4398046511104 + 8545360390609961 / 2199023255552)
      = Fin (2668795096077435 / 549755813888)"
    using rnd_near [of 12 "4259639987399557 / 4398046511104 + 8545360390609961 / 2199023255552"
        5337590192154870]
    by simp
  have t: "rnd (2668795096077435 / 549755813888 - 9709 / 2) = Fin (5497558139 / 549755813888)"
    using rnd_near [of "- 7" "2668795096077435 / 549755813888 - 9709 / 2" 5764607523160064]
    by simp
  show "status (reconcileStatement R unparsedBalances
      (map (\<lambda>a. (extracted ''row_1'' None ''ROW'' None None None)\<lparr>normalizedAmount := Present a\<rparr>)
         [rnd (96853 / 100), rnd (194299 / 50), Fin (- (9709 / 2))])) = BLOCK"
    using s t
    by (simp add: status_reconcile flags_reconcile balanceFlags_def Let_def unparsedBalances_def
        sampleMetadata_def extracted_def sumInOrder_def a b rnd_cent)
  have c: "rnd (5000 - 2748784566998139 / 549755813888) = Fin (- (5497558139 / 549755813888))"
    using binary64_sums(2) by (simp add: rnd_decimals jsub_def)
  have d: "rnd (100 - 7036170730324623 / 70368744177664) = Fin (703687441777 / 70368744177664)"
    using binary64_sums(3) by (simp add: rnd_decimals)
  show "status (reconcileStatement R
      (sampleMetadata\<lparr>normalizedClosingBalance := Some (rnd (500001 / 100))\<rparr>) []) = BLOCK"
    using c
    by (simp add: status_reconcile flags_reconcile balanceFlags_def Let_def sampleMetadata_def
        sumInOrder_def rnd_decimals jsub_def rnd_cent)
  show "status (reconcileStatement R unparsedBalances
      [sampleTx ''TXN001'' ''2024-01-02'' ''DEPOSIT'' None (Some ''100.00'') ''100.00'' 100 100,
       (sampleTx ''TXN002'' ''2024-01-03'' ''CHECK'' (Some ''99.99'') None ''0.01'' 0 0)
         \<lparr>normalizedAmount := Present (rnd (- (9999 / 100))), normalizedBalance := Null\<rparr>]) = BLOCK"
    using d
    by (simp add: status_reconcile flags_reconcile balanceFlags_def Let_def unparsedBalances_def
        sampleMetadata_def sampleTx_def sumInOrder_def rnd_decimals rnd_cent)
qed

text \<open>
  C9. An absent normalized opening or closing balance is replaced by 0: the result is
  the one for a statement whose balance is 0. So when both are absent and the sum of the
  amounts does not exceed 0.01 in absolute value, the status is PASS and the result has
  neither a statement-level flag nor any flag of severity error.
\<close>

theorem reconcile_missing_balances:
  "reconcileStatement R (m\<lparr>normalizedOpeningBalance := None\<rparr>) ts
     = reconcileStatement R (m\<lparr>normalizedOpeningBalance := Some (Fin 0)\<rparr>) ts
   \<and> reconcileStatement R (m\<lparr>normalizedClosingBalance := None\<rparr>) ts
     = reconcileStatement R (m\<lparr>normalizedClosingBalance := Some (Fin 0)\<rparr>) ts
   \<and> (normalizedOpeningBalance m = None \<and> normalizedClosingBalance m = None
        \<and> \<not> jgt (jabs (sumInOrder (map (\<lambda>tx. numOr0 (normalizedAmount tx)) ts))) (rnd (1 / 100))
       \<longrightarrow> status (reconcileStatement R m ts) = PASS
           \<and> filter (\<lambda>f. flagRowId f = None) (flags (reconcileStatement R m ts)) = []
           \<and> filter (\<lambda>f. severity f = Error) (flags (reconcileStatement R m ts)) = [])"
proof -
  have a: "reconcileStatement R (m\<lparr>normalizedOpeningBalance := None\<rparr>) ts
     = reconcileStatement R (m\<lparr>normalizedOpeningBalance := Some (Fin 0)\<rparr>) ts"
    by (simp add: reconcileStatement_def dateRangeFlags_def Let_def)
  have b: "reconcileStatement R (m\<lparr>normalizedClosingBalance := None\<rparr>) ts
     = reconcileStatement R (m\<lparr>normalizedClosingBalance := Some (Fin 0)\<rparr>) ts"
    by (simp add: reconcileStatement_def dateRangeFlags_def Let_def)
  have c: "normalizedOpeningBalance m = None \<and> normalizedClosingBalance m = None
        \<and> \<not> jgt (jabs (sumInOrder (map (\<lambda>tx. numOr0 (normalizedAmount tx)) ts))) (rnd (1 / 100))
       \<longrightarrow> status (reconcileStatement R m ts) = PASS
           \<and> filter (\<lambda>f. flagRowId f = None) (flags (reconcileStatement R m ts)) = []
           \<and> filter (\<lambda>f. severity f = Error) (flags (reconcileStatement R m ts)) = []"
    by (simp add: status_reconcile flags_reconcile balanceFlags_def Let_def)
  show ?thesis using a b c by blast
qed

theorem reconcile_missing_balances_witness:
  "normalizedOpeningBalance unparsedBalances = None
   \<and> normalizedClosingBalance unparsedBalances = None
   \<and> \<not> jgt (jabs (sumInOrder (map (\<lambda>tx. numOr0 (normalizedAmount tx)) offsettingTransactions)))
         (rnd (1 / 100))
   \<and> status (reconcileStatement demoRuntime unparsedBalances offsettingTransactions) = PASS"
proof -
  have h: "normalizedOpeningBalance unparsedBalances = None
        \<and> normalizedClosingBalance unparsedBalances = None
        \<and> \<not> jgt (jabs (sumInOrder (map (\<lambda>tx. numOr0 (normalizedAmount tx)) offsettingTransactions)))
         (rnd (1 / 100))"
    by (simp add: offsettingTransactions_def sampleTx_def unparsedBalances_def sumInOrder_def rnd_cent)
  from reconcile_missing_balances [where R = demoRuntime and ts = offsettingTransactions
      and m = unparsedBalances] h
  show ?thesis by blast
qed

text \<open>
  The count that reconcileStatement returns is the size of the set of all \<open>rowId\<close>
  values of the flags, \<open>null\<close> included: it exceeds the number of flagged rows by one
  exactly when a statement-level flag is present.
\<close>

lemma remdups_option_count:
  "length (remdups os) = length (remdups (map the (filter (\<lambda>r. r \<noteq> None) os)))
      + (if None \<in> set os then 1 else 0)"
proof -
  have s: "set (map the (filter (\<lambda>r. r \<noteq> None) os)) = the ` (set os - {None})"
    by auto
  have inj: "inj_on the (set os - {None})"
    by (auto simp: inj_on_def)
  have "card (set os) = card (set os - {None}) + (if None \<in> set os then 1 else 0)"
    by (simp add: card_Diff_singleton_if) (metis List.finite_set card_gt_0_iff empty_iff Suc_pred)
  then show ?thesis
    unfolding length_remdups_card_conv s card_image [OF inj] .
qed

lemma flaggedRowsCount_eq:
  "flaggedRowsCount (reconcileStatement R m ts)
     = specFlaggedRows (flags (reconcileStatement R m ts))
       + (if None \<in> flagRowId ` set (flags (reconcileStatement R m ts)) then 1 else 0)"
  unfolding specFlaggedRows_def flaggedRowsCount_reconcile
  using remdups_option_count [of "map flagRowId (flags (reconcileStatement R m ts))"]
  by (simp only: set_map)

text \<open>
  C5. flaggedRowsCount is meant to be the number of distinct row identifiers among the
  flags, a statement-level flag contributing nothing. On the demo statement with the
  closing balance stated as 6000 the only flag is the statement-level one: no row is
  flagged, and the count returned is 1.
\<close>

theorem flaggedRowsCount_counts_statement_flag:
  "map flagRowId (flags (reconcileStatement demoRuntime
       (sampleMetadata\<lparr>normalizedClosingBalance := Some (Fin 6000)\<rparr>) sampleTransactions)) = [None]
   \<and> specFlaggedRows (flags (reconcileStatement demoRuntime
       (sampleMetadata\<lparr>normalizedClosingBalance := Some (Fin 6000)\<rparr>) sampleTransactions)) = 0
   \<and> flaggedRowsCount (reconcileStatement demoRuntime
       (sampleMetadata\<lparr>normalizedClosingBalance := Some (Fin 6000)\<rparr>) sampleTransactions) = 1"
  unfolding flaggedRowsCount_reconcile specFlaggedRows_def sample_flags_6000
  by simp

section \<open>Properties of the normalizer\<close>

lemma parseFloat_empty: "parseFloat (stripNonNumeric []) = NaN"
  by (simp add: parseFloat_def stripNonNumeric_def)

lemma normalizeAmount_spec: "normalizeAmount tx = round2 (specAmount tx)"
  by (cases "debit tx"; cases "credit tx")
     (auto simp: normalizeAmount_def specAmount_def Let_def parseFloat_empty)

lemma normalizedAmount_normalizeTx:
  "normalizedAmount (fst (normalizeTx R tx)) = Present (normalizeAmount tx)"
  by (simp add: normalizeTx_def normalizeBalance_def Let_def split: prod.splits)

lemma parseFloat_examples:
  "parseFloat (stripNonNumeric ''250.00'') = Fin 250"
  "parseFloat (stripNonNumeric ''1500.00'') = Fin 1500"
  "parseFloat (stripNonNumeric ''6250.00'') = Fin 6250"
  "parseFloat (stripNonNumeric ''$1,500.00'') = Fin 1500"
  "parseFloat (stripNonNumeric ''n/a'') = NaN"
  by (simp_all add: parseFloat_def stripNonNumeric_def isDigit_def digitsValue_def Let_def)

lemma mathRound_of_int: "mathRound (Fin (of_int n)) = Fin (of_int n)"
proof -
  have "\<lfloor>(of_int n :: rat) + 1 / 2\<rfloor> = n"
    by (rule floor_unique; simp)
  then show ?thesis by simp
qed

lemma mathRound_whole [simp]:
  "mathRound (Fin 0) = Fin 0"
  "mathRound (Fin (numeral w)) = Fin (numeral w)"
  "mathRound (Fin (- numeral w)) = Fin (- numeral w)"
  using mathRound_of_int [of 0] mathRound_of_int [of "numeral w"] mathRound_of_int [of "- numeral w"]
  by simp_all

lemma round2_examples:
  "round2 (Fin (- 250)) = Fin (- 250)" "round2 (Fin 1500) = Fin 1500" "round2 (Fin 0) = Fin 0"
  "round2 (Fin 6250) = Fin 6250"
  by (simp_all add: round2_def del: mathRound.simps)

text \<open>
  The product by 100 is rounded before \<open>Math.round\<close> sees it: the credit 1.005 is stored
  as 1, since 1.005 * 100 is 100.49999999999999, and the debit 0.035 as -0.04, since
  0.035 * 100 is 3.5000000000000004.
\<close>

lemma round2_binary64:
  "round2 (parseFloat (stripNonNumeric ''1.005'')) = Fin 1"
  "round2 (jneg (jabs (parseFloat (stripNonNumeric ''0.035'')))) = rnd (- (4 / 100))"
proof -
  have p1: "parseFloat (stripNonNumeric ''1.005'') = Fin (1131529406376837 / 1125899906842624)"
    using rnd_near [of 0 "1005 / 1000" 4526117625507348]
    by (simp add: parseFloat_def stripNonNumeric_def isDigit_def digitsValue_def Let_def)
  have m1: "rnd (1131529406376837 / 1125899906842624 * 100) = Fin (7072058789855231 / 70368744177664)"
    using rnd_near [of 6 "1131529406376837 / 1125899906842624 * 100" 7072058789855231] by simp
  have f1: "\<lfloor>(7072058789855231 / 70368744177664 :: rat) + 1 / 2\<rfloor> = 100"
    by (rule floor_unique; simp)
  show "round2 (parseFloat (stripNonNumeric ''1.005'')) = Fin 1"
    using m1 f1 by (simp add: round2_def p1)
  have p2: "parseFloat (stripNonNumeric ''0.035'') = Fin (1261007895663739 / 36028797018963968)"
    using rnd_near [of "- 5" "35 / 1000" 5044031582654956]
    by (simp add: parseFloat_def stripNonNumeric_def isDigit_def digitsValue_def Let_def)
  have m2: "rnd (- (1261007895663739 / 36028797018963968) * 100)
      = Fin (- (7881299347898369 / 2251799813685248))"
    using rnd_near [of 1 "- (1261007895663739 / 36028797018963968) * 100" 7881299347898369] by simp
  have f2: "\<lfloor>- (7881299347898369 / 2251799813685248 :: rat) + 1 / 2\<rfloor> = - 4"
    by (rule floor_unique; simp)
  show "round2 (jneg (jabs (parseFloat (stripNonNumeric ''0.035'')))) = rnd (- (4 / 100))"
    using m2 f2 by (simp add: round2_def p2)
qed

text \<open>
  C6. normalizeTransactions derives the amount starting from 0: a debit that is present
  and parses as a number makes it minus the absolute value of the debit, and a credit
  that is present and parses then makes it plus the absolute value of the credit,
  overriding the debit; normalizedAmount is that amount after \<open>Math.round(amount * 100) /
  100\<close>. So a debit "250.00" with no credit gives -250, a credit "1500.00" with no debit
  gives 1500, and a row with neither gives 0.
\<close>

theorem normalize_amount:
  "normalizedAmount (fst (normalizeTx R tx)) = Present (round2 (specAmount tx))
   \<and> map normalizedAmount (normalized (normalizeTransactions R ts))
       = map (\<lambda>tx. Present (round2 (specAmount tx))) ts
   \<and> (\<forall>d c. debit tx = Some d \<and> credit tx = Some c
          \<and> \<not> isNaN (parseFloat (stripNonNumeric d)) \<and> \<not> isNaN (parseFloat (stripNonNumeric c))
        \<longrightarrow> normalizedAmount (fst (normalizeTx R tx))
              = Present (round2 (jabs (parseFloat (stripNonNumeric c)))))
   \<and> (debit tx = Some ''250.00'' \<and> credit tx = None
        \<longrightarrow> normalizedAmount (fst (normalizeTx R tx)) = Present (Fin (- 250)))
   \<and> (debit tx = None \<and> credit tx = Some ''1500.00''
        \<longrightarrow> normalizedAmount (fst (normalizeTx R tx)) = Present (Fin 1500))
   \<and> (debit tx = None \<and> credit tx = None
        \<longrightarrow> normalizedAmount (fst (normalizeTx R tx)) = Present (Fin 0))"
proof -
  have one: "normalizedAmount (fst (normalizeTx R t)) = Present (round2 (specAmount t))" for t
    by (simp add: normalizedAmount_normalizeTx normalizeAmount_spec)
  have all: "map normalizedAmount (normalized (normalizeTransactions R ts))
       = map (\<lambda>tx. Present (round2 (specAmount tx))) ts"
    by (simp add: normalizeTransactions_def one)
  have both: "\<forall>d c. debit tx = Some d \<and> credit tx = Some c
          \<and> \<not> isNaN (parseFloat (stripNonNumeric d)) \<and> \<not> isNaN (parseFloat (stripNonNumeric c))
        \<longrightarrow> normalizedAmount (fst (normalizeTx R tx))
              = Present (round2 (jabs (parseFloat (stripNonNumeric c))))"
    by (simp add: one specAmount_def)
  have deb: "debit tx = Some ''250.00'' \<and> credit tx = None
        \<longrightarrow> normalizedAmount (fst (normalizeTx R tx)) = Present (Fin (- 250))"
    by (simp add: one specAmount_def parseFloat_examples round2_examples)
  have cre: "debit tx = None \<and> credit tx = Some ''1500.00''
        \<longrightarrow> normalizedAmount (fst (normalizeTx R tx)) = Present (Fin 1500)"
    by (simp add: one specAmount_def parseFloat_examples round2_examples)
  have none: "debit tx = None \<and> credit tx = None
        \<longrightarrow> normalizedAmount (fst (normalizeTx R tx)) = Present (Fin 0)"
    by (simp add: one specAmount_def round2_examples)
  show ?thesis
    using one all both deb cre none by blast
qed

theorem normalize_amount_witness:
  "debit (sampleTransactions ! 1) = Some ''250.00'' \<and> credit (sampleTransactions ! 1) = None
   \<and> normalizedAmount (fst (normalizeTx demoRuntime (sampleTransactions ! 1))) = Present (Fin (- 250))
   \<and> debit (sampleTransactions ! 0) = None \<and> credit (sampleTransactions ! 0) = Some ''1500.00''
   \<and> normalizedAmount (fst (normalizeTx demoRuntime (sampleTransactions ! 0))) = Present (Fin 1500)
   \<and> debit (extracted ''row_9'' None ''MEMO'' None None None) = None
   \<and> credit (extracted ''row_9'' None ''MEMO'' None None None) = None
   \<and> normalizedAmount (fst (normalizeTx demoRuntime (extracted ''row_9'' None ''MEMO'' None None None)))
        = Present (Fin 0)"
proof -
  have h1: "debit (sampleTransactions ! 1) = Some ''250.00'' \<and> credit (sampleTransactions ! 1) = None"
    by (simp add: sampleTransactions_def sampleTx_def)
  have h0: "debit (sampleTransactions ! 0) = None \<and> credit (sampleTransactions ! 0) = Some ''1500.00''"
    by (simp add: sampleTransactions_def sampleTx_def)
  have h9: "debit (extracted ''row_9'' None ''MEMO'' None None None) = None
        \<and> credit (extracted ''row_9'' None ''MEMO'' None None None) = None"
    by (simp add: extracted_def)
  from normalize_amount [where R = demoRuntime and tx = "sampleTransactions ! 1"]
    normalize_amount [where R = demoRuntime and tx = "sampleTransactions ! 0"]
    normalize_amount [where R = demoRuntime and tx = "extracted ''row_9'' None ''MEMO'' None None None"]
    h1 h0 h9
  show ?thesis by blast
qed

text \<open>
  On the second row of the demo statement the normalizer computes the normalized values
  that the demo loader stores with the row.
\<close>

lemma sample_row_normalized:
  "normalizeTx demoRuntime (sampleTransactions ! 1) = (sampleTransactions ! 1, [])"
proof -
  have d: "dateValue demoRuntime ''2024-01-03'' = Some 1704240000000"
    "toISOString demoRuntime 1704240000000 = Some ''2024-01-03T00:00:00.000Z''"
    by (simp_all add: demoRuntime_def demoDates_def)
  show ?thesis
    by (simp add: sampleTransactions_def sampleTx_def normalizeTx_def normalizeDate_def
        normalizeAmount_def normalizeBalance_def Let_def d parseFloat_examples round2_examples)
qed

lemma normalizeTx_date_parts:
  "normalizedDate (fst (normalizeTx R tx)) = normalizedDate (fst (normalizeDate R tx tx))"
  "snd (normalizeTx R tx) = snd (normalizeDate R tx tx)"
  by (simp_all add: normalizeTx_def normalizeBalance_def Let_def split: prod.splits)

text \<open>
  C4 as stated asks for an error flag also when postedDate is absent, and for an absent
  normalizedDate after every failure. The date block is guarded by \<open>if (tx.postedDate)\<close>:
  for a row extracted without a posted date, normalizeTransactions emits no flag. And a
  failed date leaves normalizedDate untouched: the second demo row, with its posted date
  edited to a string that is no date, keeps the normalizedDate it had.
\<close>

theorem normalize_absent_date_counterexample:
  "postedDate (extracted ''row_1'' None ''CHECK 1001'' (Some ''250.00'') None None) = None
   \<and> errors (normalizeTransactions demoRuntime
        [extracted ''row_1'' None ''CHECK 1001'' (Some ''250.00'') None None]) = []
   \<and> postedDate staleDate = Some ''garbage'' \<and> \<not> dateParses demoRuntime ''garbage''
   \<and> normalizedDate (fst (normalizeTx demoRuntime staleDate)) = Present ''2024-01-03''"
  by (simp add: normalizeTransactions_def normalizeTx_date_parts normalizeDate_def extracted_def
      staleDate_def applyEdit_def markEdited_def applySwitch_def storeOriginals_def Let_def
      sampleTransactions_def sampleTx_def dateParses_def demoRuntime_def demoDates_def)

text \<open>
  C4, amended. For a transaction whose postedDate is a non-empty string that does not
  parse as a calendar date, normalizeTransactions emits exactly one flag for the row, of
  severity error, with the row's rowId and field postedDate, which is among the errors of
  the whole list; for a transaction whose postedDate is absent or empty it emits no flag.
  In both cases normalizedDate is left absent when it was absent on input, as it is for
  a row that extraction builds.
\<close>

theorem normalize_invalid_date:
  "(\<forall>d. postedDate tx = Some d \<and> d \<noteq> [] \<and> \<not> dateParses R d \<longrightarrow>
        (absent (normalizedDate tx) \<longrightarrow> absent (normalizedDate (fst (normalizeTx R tx))))
        \<and> (\<exists>msg. snd (normalizeTx R tx) =
              [\<lparr>flagRowId = Some (rowId tx), severity = Error, message = msg,
                field = Some ''postedDate'', suggestedFix = None\<rparr>])
        \<and> (tx \<in> set ts \<longrightarrow>
             (\<exists>f \<in> set (errors (normalizeTransactions R ts)).
                flagRowId f = Some (rowId tx) \<and> severity f = Error \<and> field f = Some ''postedDate'')))
   \<and> (\<not> truthy (postedDate tx) \<longrightarrow>
        (absent (normalizedDate tx) \<longrightarrow> absent (normalizedDate (fst (normalizeTx R tx))))
        \<and> snd (normalizeTx R tx) = [])
   \<and> errors (normalizeTransactions R ts) = concat (map (\<lambda>tx. snd (normalizeTx R tx)) ts)"
proof -
  have inv: "normalizedDate (fst (normalizeTx R tx)) = normalizedDate tx
        \<and> (\<exists>msg. snd (normalizeTx R tx) =
              [\<lparr>flagRowId = Some (rowId tx), severity = Error, message = msg,
                field = Some ''postedDate'', suggestedFix = None\<rparr>])"
    if "postedDate tx = Some d" "d \<noteq> []" "\<not> dateParses R d" for d
    using that
    by (auto simp: normalizeTx_date_parts normalizeDate_def dateParses_def split: option.splits)
  have mem: "\<exists>f \<in> set (errors (normalizeTransactions R ts)).
                flagRowId f = Some (rowId tx) \<and> severity f = Error \<and> field f = Some ''postedDate''"
    if "postedDate tx = Some d" "d \<noteq> []" "\<not> dateParses R d" "tx \<in> set ts" for d
  proof -
    from inv [OF that(1-3)] obtain msg where
      m: "snd (normalizeTx R tx) = [\<lparr>flagRowId = Some (rowId tx), severity = Error, message = msg,
                field = Some ''postedDate'', suggestedFix = None\<rparr>]"
      by blast
    let ?f = "\<lparr>flagRowId = Some (rowId tx), severity = Error, message = msg,
                field = Some ''postedDate'', suggestedFix = None\<rparr>"
    have "?f \<in> set (errors (normalizeTransactions R ts))"
      using that(4) m by (auto simp: normalizeTransactions_def intro!: bexI [of _ tx])
    then show ?thesis
      by (intro bexI [of _ ?f]) simp_all
  qed
  have absent: "\<not> truthy (postedDate tx) \<longrightarrow>
        normalizedDate (fst (normalizeTx R tx)) = normalizedDate tx \<and> snd (normalizeTx R tx) = []"
    by (cases "postedDate tx") (simp_all add: normalizeTx_date_parts normalizeDate_def)
  have errs: "errors (normalizeTransactions R ts) = concat (map (\<lambda>tx. snd (normalizeTx R tx)) ts)"
    by (simp add: normalizeTransactions_def)
  show ?thesis
    using inv mem absent errs by metis
qed

theorem normalize_invalid_date_witness:
  "postedDate unparsableDate = Some ''not a date'' \<and> \<not> dateParses demoRuntime ''not a date''
   \<and> absent (normalizedDate unparsableDate)
   \<and> absent (normalizedDate (fst (normalizeTx demoRuntime unparsableDate)))
   \<and> (\<exists>f \<in> set (errors (normalizeTransactions demoRuntime [unparsableDate])).
          flagRowId f = Some ''row_3'' \<and> severity f = Error \<and> field f = Some ''postedDate'')
   \<and> \<not> truthy (postedDate (extracted ''row_1'' None ''CHECK 1001'' (Some ''250.00'') None None))
   \<and> snd (normalizeTx demoRuntime (extracted ''row_1'' None ''CHECK 1001'' (Some ''250.00'') None None)) = []"
proof -
  have h: "postedDate unparsableDate = Some ''not a date'' \<and> ''not a date'' \<noteq> []
      \<and> \<not> dateParses demoRuntime ''not a date''"
    by (simp add: unparsableDate_def extracted_def dateParses_def demoRuntime_def demoDates_def)
  have g: "unparsableDate \<in> set [unparsableDate]" "rowId unparsableDate = ''row_3''"
     "absent (normalizedDate unparsableDate)"
    by (simp_all add: unparsableDate_def extracted_def)
  have a: "\<not> truthy (postedDate (extracted ''row_1'' None ''CHECK 1001'' (Some ''250.00'') None None))"
    by (simp add: extracted_def)
  from normalize_invalid_date [where R = demoRuntime and tx = unparsableDate and ts = "[unparsableDate]"]
    h g
  have 1: "absent (normalizedDate (fst (normalizeTx demoRuntime unparsableDate)))
   \<and> (\<exists>f \<in> set (errors (normalizeTransactions demoRuntime [unparsableDate])).
          flagRowId f = Some ''row_3'' \<and> severity f = Error \<and> field f = Some ''postedDate'')"
    by metis
  from normalize_invalid_date [where R = demoRuntime
      and tx = "extracted ''row_1'' None ''CHECK 1001'' (Some ''250.00'') None None" and ts = "[]"] a
  have 2: "snd (normalizeTx demoRuntime (extracted ''row_1'' None ''CHECK 1001'' (Some ''250.00'') None None)) = []"
    by blast
  show ?thesis using h g 1 a 2 by blast
qed

section \<open>Properties of the fingerprint and of the export gate\<close>

text \<open>
  Three values of simpleHash (the accumulator of the last one is negative), and the
  reason why it cannot separate all inputs: its step is \<open>h \<mapsto> 31 h + c\<close> modulo
  \<open>2\<^sup>3\<^sup>2\<close>, so the strings Aa and BB lead from any state to one state.
\<close>

lemma simpleHash_examples:
  "simpleHash [] = ''0''"
  "simpleHash ''abc'' = ''17862''"
  "simpleHash ''row_1|null|null|CHECK 1001|0000'' = ''7600c52c''"
  by (simp_all add: simpleHash_def hashStep_def toString16.simps hexDigit_def)

lemma hashStep_collision: "foldl hashStep h ''Aa'' = foldl hashStep h ''BB''"
  by (simp add: hashStep_def push_bit_eq_mult algebra_simps)

lemma simpleHash_collision: "simpleHash (p @ ''Aa'' @ s) = simpleHash (p @ ''BB'' @ s)"
  by (simp only: simpleHash_def foldl_append hashStep_collision)

text \<open>The hexadecimal numeral determines the number.\<close>

lemma hexDigit_inj: "hexDigit m = hexDigit n \<Longrightarrow> m mod 16 = n mod 16"
proof -
  assume h: "hexDigit m = hexDigit n"
  have d: "distinct ''0123456789abcdef''" by simp
  have l: "m mod 16 < length ''0123456789abcdef''" "n mod 16 < length ''0123456789abcdef''"
    by simp_all
  from h show ?thesis
    unfolding hexDigit_def using nth_eq_iff_index_eq [OF d l] by blast
qed

lemma toString16_nonempty: "toString16 n \<noteq> []"
  by (subst toString16.simps) simp

lemma toString16_inj: "toString16 m = toString16 n \<Longrightarrow> m = n"
proof (induction m arbitrary: n rule: toString16.induct)
  case (1 m)
  show ?case
  proof (cases "m < 16")
    case True
    have n: "n < 16"
    proof (rule ccontr)
      assume "\<not> n < 16"
      then have "toString16 n = toString16 (n div 16) @ [hexDigit n]"
        by (subst toString16.simps) simp
      moreover have "toString16 m = [hexDigit m]"
        using True by (subst toString16.simps) simp
      ultimately show False
        using "1.prems" toString16_nonempty [of "n div 16"] by simp
    qed
    have "hexDigit m = hexDigit n"
      using "1.prems" True n by (simp add: toString16.simps [of m] toString16.simps [of n])
    from hexDigit_inj [OF this] True n show ?thesis by simp
  next
    case False
    have m: "toString16 m = toString16 (m div 16) @ [hexDigit m]"
      using False by (subst toString16.simps) simp
    have n: "\<not> n < 16"
    proof
      assume "n < 16"
      then have "toString16 n = [hexDigit n]"
        by (subst toString16.simps) simp
      then show False
        using "1.prems" m toString16_nonempty [of "m div 16"] by simp
    qed
    then have n': "toString16 n = toString16 (n div 16) @ [hexDigit n]"
      by (subst toString16.simps) simp
    from "1.prems" m n' have e: "toString16 (m div 16) = toString16 (n div 16)"
      and h: "hexDigit m = hexDigit n"
      by simp_all
    from "1.IH" [OF False e] have "m div 16 = n div 16" .
    moreover from hexDigit_inj [OF h] have "m mod 16 = n mod 16" .
    ultimately show ?thesis
      by (metis div_mult_mod_eq)
  qed
qed

text \<open>
  simpleHash prints the absolute value of the accumulator, so two strings have the same
  hash exactly when their accumulators are equal or opposite.
\<close>

lemma abs_sint_eq_iff:
  fixes a b :: "32 word"
  shows "\<bar>sint a\<bar> = \<bar>sint b\<bar> \<longleftrightarrow> a = b \<or> a = - b"
proof
  assume "\<bar>sint a\<bar> = \<bar>sint b\<bar>"
  then have "sint a = sint b \<or> sint a = - sint b"
    by (simp add: abs_eq_iff)
  then show "a = b \<or> a = - b"
  proof
    assume "sint a = sint b"
    then have "a = b" by (rule signed_word_eqI)
    then show ?thesis by simp
  next
    assume "sint a = - sint b"
    then have "(word_of_int (sint a) :: 32 word) = word_of_int (- sint b)" by simp
    then show ?thesis by simp
  qed
next
  assume "a = b \<or> a = - b"
  then show "\<bar>sint a\<bar> = \<bar>sint b\<bar>"
  proof
    assume "a = b"
    then show ?thesis by simp
  next
    assume a: "a = - b"
    show ?thesis
    proof (cases "sint b = - (2 ^ 31)")
      case True
      then have "(word_of_int (sint b) :: 32 word) = word_of_int (- (2 ^ 31))" by simp
      then have "b = - b" by simp
      with a show ?thesis by simp
    next
      case False
      have "- (2 ^ 31) \<le> sint b" "sint b < 2 ^ 31"
        using sint_ge [of b] sint_lt [of b] by simp_all
      with False have r: "- (2 ^ 31) \<le> - sint b" "- sint b < 2 ^ 31" by simp_all
      have "sint (- b) = signed_take_bit 31 (- sint b)"
        by (simp add: sint_word_ariths)
      also have "\<dots> = - sint b"
        using r by (simp add: signed_take_bit_int_eq_self)
      finally show ?thesis using a by simp
    qed
  qed
qed

lemma simpleHash_eq_iff:
  "simpleHash x = simpleHash y
   \<longleftrightarrow> hashAccumulator x = hashAccumulator y \<or> hashAccumulator x = - hashAccumulator y"
proof -
  have "simpleHash x = simpleHash y
      \<longleftrightarrow> nat \<bar>sint (hashAccumulator x)\<bar> = nat \<bar>sint (hashAccumulator y)\<bar>"
    unfolding simpleHash_def hashAccumulator_def by (auto dest: toString16_inj)
  also have "\<dots> \<longleftrightarrow> \<bar>sint (hashAccumulator x)\<bar> = \<bar>sint (hashAccumulator y)\<bar>"
    by (rule eq_nat_nat_iff) simp_all
  finally show ?thesis
    by (simp only: abs_sint_eq_iff)
qed

text \<open>
  The step \<open>h \<mapsto> 31 h + c\<close> is injective in the state for a fixed character, since 31 is
  a unit modulo \<open>2\<^sup>3\<^sup>2\<close>, and injective in the character for a fixed state. So two
  strings that differ in one character have different accumulators.
\<close>

lemma hashStep_eq: "hashStep h c = 31 * h + of_nat (of_char c)"
  by (simp add: hashStep_def push_bit_eq_mult)

lemma hashStep_inj_state: "hashStep h c = hashStep k c \<Longrightarrow> h = k"
proof -
  assume "hashStep h c = hashStep k c"
  then have e: "31 * h = 31 * k" by (simp add: hashStep_eq)
  have i: "(3186588639 :: 32 word) * 31 = 1" by simp
  have "h = (3186588639 * 31) * h" by (simp only: i mult_1)
  also have "\<dots> = 3186588639 * (31 * h)" by (simp only: mult.assoc)
  also have "\<dots> = 3186588639 * (31 * k)" by (simp only: e)
  also have "\<dots> = (3186588639 * 31) * k" by (simp only: mult.assoc)
  also have "\<dots> = k" by (simp only: i mult_1)
  finally show "h = k" .
qed

lemma hashStep_inj_char: "hashStep h c = hashStep h d \<Longrightarrow> c = d"
proof -
  assume "hashStep h c = hashStep h d"
  then have e: "(of_nat (of_char c) :: 32 word) = of_nat (of_char d)" by (simp add: hashStep_eq)
  have "(of_char c :: nat) < 256" "(of_char d :: nat) < 256"
    by (rule nat_of_char_less_256)+
  with e have "(of_char c :: nat) = of_char d"
    by (simp add: word_of_nat_eq_iff take_bit_nat_eq_self)
  then show "c = d" by simp
qed

lemma foldl_hashStep_inj: "foldl hashStep h s = foldl hashStep k s \<Longrightarrow> h = k"
  by (induction s arbitrary: h k) (auto dest: hashStep_inj_state)

lemma hashAccumulator_one_character:
  "c \<noteq> d \<Longrightarrow> hashAccumulator (p @ c # s) \<noteq> hashAccumulator (p @ d # s)"
  unfolding hashAccumulator_def foldl_append foldl_Cons
  using foldl_hashStep_inj hashStep_inj_char by blast

text \<open>
  C8 as stated asks that two inputs differing in exactly one of rowId, normalizedDate,
  normalizedAmount, description and accountLastFour have different hashes. Two rows that
  differ in the description only, CHECK Aa and CHECK BB, have the same hash.
\<close>

theorem hash_collision_counterexample:
  "rowId checkAa = rowId checkBB \<and> normalizedDate checkAa = normalizedDate checkBB
   \<and> normalizedAmount checkAa = normalizedAmount checkBB
   \<and> description checkAa \<noteq> description checkBB
   \<and> hash (generateTransactionHash demoRuntime checkAa ''4567'') = ''5b570eb0''
   \<and> hash (generateTransactionHash demoRuntime checkBB ''4567'') = ''5b570eb0''"
proof -
  have f: "\<lfloor>(50001 / 2 :: rat)\<rfloor> = 25000"
    by (rule floor_unique; simp)
  have n: "numToString demoRuntime (Fin (- 250)) = ''-250''"
    by (simp add: demoRuntime_def f toString10.simps decDigit_def Let_def)
  have a: "hash (generateTransactionHash demoRuntime checkAa ''4567'') = ''5b570eb0''"
    by (simp add: generateTransactionHash_def hashInput_def checkAa_def sampleTx_def n
        simpleHash_def hashStep_def toString16.simps hexDigit_def)
  have b: "hash (generateTransactionHash demoRuntime checkBB ''4567'') = ''5b570eb0''"
    by (simp add: generateTransactionHash_def hashInput_def checkBB_def sampleTx_def n
        simpleHash_def hashStep_def toString16.simps hexDigit_def)
  show ?thesis
    using a b by (simp add: checkAa_def checkBB_def sampleTx_def)
qed

text \<open>
  C8, amended. generateTransactionHash is deterministic: two calls with identical rowId,
  normalizedDate, normalizedAmount, description and accountLastFour yield the same
  TransactionHash, so the same hash. Two inputs have the same hash exactly when the
  32-bit accumulators that simpleHash computes from their joined input strings are equal
  or opposite. When the two joined strings differ in exactly one character, the
  accumulators differ, and the hashes are equal only if the accumulators are opposite;
  the accumulators differ in particular when one character of the description, or of
  accountLastFour, is replaced and the other inputs are kept.
\<close>

theorem hash_equal_iff_accumulators:
  "(rowId t1 = rowId t2 \<and> normalizedDate t1 = normalizedDate t2
      \<and> normalizedAmount t1 = normalizedAmount t2 \<and> description t1 = description t2
      \<longrightarrow> generateTransactionHash R t1 acct = generateTransactionHash R t2 acct)
   \<and> (hash (generateTransactionHash R t1 a1) = hash (generateTransactionHash R t2 a2)
        \<longleftrightarrow> hashAccumulator (hashInput R t1 a1) = hashAccumulator (hashInput R t2 a2)
          \<or> hashAccumulator (hashInput R t1 a1) = - hashAccumulator (hashInput R t2 a2))
   \<and> (hashInput R t1 a1 = p @ c # s \<and> hashInput R t2 a2 = p @ d # s \<and> c \<noteq> d
        \<longrightarrow> hashAccumulator (hashInput R t1 a1) \<noteq> hashAccumulator (hashInput R t2 a2)
          \<and> (hash (generateTransactionHash R t1 a1) = hash (generateTransactionHash R t2 a2)
               \<longleftrightarrow> hashAccumulator (hashInput R t1 a1) = - hashAccumulator (hashInput R t2 a2)))
   \<and> (rowId t1 = rowId t2 \<and> normalizedDate t1 = normalizedDate t2
        \<and> normalizedAmount t1 = normalizedAmount t2
        \<and> description t1 = dp @ c # ds \<and> description t2 = dp @ d # ds \<and> c \<noteq> d
        \<longrightarrow> hashAccumulator (hashInput R t1 acct) \<noteq> hashAccumulator (hashInput R t2 acct))
   \<and> (c \<noteq> d
        \<longrightarrow> hashAccumulator (hashInput R t1 (ap @ c # aq))
              \<noteq> hashAccumulator (hashInput R t1 (ap @ d # aq)))"
proof -
  have det: "rowId t1 = rowId t2 \<and> normalizedDate t1 = normalizedDate t2
      \<and> normalizedAmount t1 = normalizedAmount t2 \<and> description t1 = description t2
      \<longrightarrow> generateTransactionHash R t1 acct = generateTransactionHash R t2 acct"
    by (simp add: generateTransactionHash_def hashInput_def)
  have eq: "hash (generateTransactionHash R t1 a1) = hash (generateTransactionHash R t2 a2)
        \<longleftrightarrow> hashAccumulator (hashInput R t1 a1) = hashAccumulator (hashInput R t2 a2)
          \<or> hashAccumulator (hashInput R t1 a1) = - hashAccumulator (hashInput R t2 a2)"
    by (simp add: generateTransactionHash_def simpleHash_eq_iff)
  have one: "hashAccumulator (hashInput R t1 a1) \<noteq> hashAccumulator (hashInput R t2 a2)"
    if "hashInput R t1 a1 = p @ c # s" "hashInput R t2 a2 = p @ d # s" "c \<noteq> d"
    using that hashAccumulator_one_character [of c d p s] by simp
  have desc: "hashAccumulator (hashInput R t1 acct) \<noteq> hashAccumulator (hashInput R t2 acct)"
    if "rowId t1 = rowId t2" "normalizedDate t1 = normalizedDate t2"
      "normalizedAmount t1 = normalizedAmount t2"
      "description t1 = dp @ c # ds" "description t2 = dp @ d # ds" "c \<noteq> d"
    using that hashAccumulator_one_character [of c d
        "rowId t2 @ ''|'' @ showStr (normalizedDate t2) @ ''|''
           @ showNum R (normalizedAmount t2) @ ''|'' @ dp" "ds @ ''|'' @ acct"]
    by (simp add: hashInput_def)
  have acc: "hashAccumulator (hashInput R t1 (ap @ c # aq))
              \<noteq> hashAccumulator (hashInput R t1 (ap @ d # aq))"
    if "c \<noteq> d"
    using that hashAccumulator_one_character [of c d
        "rowId t1 @ ''|'' @ showStr (normalizedDate t1) @ ''|''
           @ showNum R (normalizedAmount t1) @ ''|'' @ description t1 @ ''|'' @ ap" aq]
    by (simp add: hashInput_def)
  show ?thesis
    using det eq one desc acc by blast
qed

theorem hash_equal_iff_accumulators_witness:
  "generateTransactionHash demoRuntime (applyEdit (sampleTransactions ! 1) ''debit'' (Some ''300.00'')) ''4567''
      = generateTransactionHash demoRuntime (sampleTransactions ! 1) ''4567''
   \<and> hashInput demoRuntime checkAa ''4567'' = ''TXN002|2024-01-03|-250|CHECK Aa|456'' @ CHR ''7'' # []
   \<and> hashInput demoRuntime checkAa ''4568'' = ''TXN002|2024-01-03|-250|CHECK Aa|456'' @ CHR ''8'' # []
   \<and> hashAccumulator (hashInput demoRuntime checkAa ''4567'')
       \<noteq> hashAccumulator (hashInput demoRuntime checkAa ''4568'')
   \<and> hash (generateTransactionHash demoRuntime checkAa ''4567'') = ''5b570eb0''
   \<and> hash (generateTransactionHash demoRuntime checkAa ''4568'') = ''5b570eb1''
   \<and> hashAccumulator (hashInput demoRuntime checkAa ''4567'')
       \<noteq> hashAccumulator (hashInput demoRuntime (checkAa\<lparr>description := ''CHECK Ab''\<rparr>) ''4567'')"
proof -
  let ?t = "sampleTransactions ! 1"
  let ?e = "applyEdit ?t ''debit'' (Some ''300.00'')"
  have h: "rowId ?e = rowId ?t \<and> normalizedDate ?e = normalizedDate ?t
      \<and> normalizedAmount ?e = normalizedAmount ?t \<and> description ?e = description ?t"
    by (simp add: applyEdit_def markEdited_def applySwitch_def storeOriginals_def Let_def)
  have f: "\<lfloor>(50001 / 2 :: rat)\<rfloor> = 25000"
    by (rule floor_unique; simp)
  have n: "numToString demoRuntime (Fin (- 250)) = ''-250''"
    by (simp add: demoRuntime_def f toString10.simps decDigit_def Let_def)
  have i: "hashInput demoRuntime checkAa ''4567'' = ''TXN002|2024-01-03|-250|CHECK Aa|456'' @ CHR ''7'' # []"
    "hashInput demoRuntime checkAa ''4568'' = ''TXN002|2024-01-03|-250|CHECK Aa|456'' @ CHR ''8'' # []"
    by (simp_all add: hashInput_def checkAa_def sampleTx_def n)
  have c: "CHR ''7'' \<noteq> CHR ''8''" by simp
  have v: "hash (generateTransactionHash demoRuntime checkAa ''4567'') = ''5b570eb0''"
    "hash (generateTransactionHash demoRuntime checkAa ''4568'') = ''5b570eb1''"
    by (simp_all add: generateTransactionHash_def hashInput_def checkAa_def sampleTx_def n
        simpleHash_def hashStep_def toString16.simps hexDigit_def)
  from hash_equal_iff_accumulators [where R = demoRuntime and ?t1.0 = ?e and ?t2.0 = ?t
      and acct = "''4567''"] h
  have 1: "generateTransactionHash demoRuntime ?e ''4567'' = generateTransactionHash demoRuntime ?t ''4567''"
    by blast
  from hash_equal_iff_accumulators [where R = demoRuntime and ?t1.0 = checkAa and ?t2.0 = checkAa
      and ?a1.0 = "''4567''" and ?a2.0 = "''4568''"
      and p = "''TXN002|2024-01-03|-250|CHECK Aa|456''" and c = "CHR ''7''" and d = "CHR ''8''"
      and s = "[]"] i c
  have 2: "hashAccumulator (hashInput demoRuntime checkAa ''4567'')
       \<noteq> hashAccumulator (hashInput demoRuntime checkAa ''4568'')"
    by blast
  have g: "rowId checkAa = rowId (checkAa\<lparr>description := ''CHECK Ab''\<rparr>)
      \<and> normalizedDate checkAa = normalizedDate (checkAa\<lparr>description := ''CHECK Ab''\<rparr>)
      \<and> normalizedAmount checkAa = normalizedAmount (checkAa\<lparr>description := ''CHECK Ab''\<rparr>)
      \<and> description checkAa = ''CHECK A'' @ CHR ''a'' # []
      \<and> description (checkAa\<lparr>description := ''CHECK Ab''\<rparr>) = ''CHECK A'' @ CHR ''b'' # []
      \<and> CHR ''a'' \<noteq> CHR ''b''"
    by (simp add: checkAa_def sampleTx_def)
  from hash_equal_iff_accumulators [where R = demoRuntime and ?t1.0 = checkAa
      and ?t2.0 = "checkAa\<lparr>description := ''CHECK Ab''\<rparr>" and acct = "''4567''"
      and dp = "''CHECK A''" and c = "CHR ''a''" and d = "CHR ''b''" and ds = "[]"] g
  have 3: "hashAccumulator (hashInput demoRuntime checkAa ''4567'')
       \<noteq> hashAccumulator (hashInput demoRuntime (checkAa\<lparr>description := ''CHECK Ab''\<rparr>) ''4567'')"
    by blast
  show ?thesis using 1 2 3 i v by blast
qed

text \<open>
  C2. With isReady false, generateCSVExport and generateOFXExport return the
  none-result for every runtime, metadata and transaction list: nothing is serialized.
\<close>

theorem export_refused_when_not_ready:
  "generateCSVExport R ts False = None \<and> generateOFXExport R m ts False = None"
  by (simp add: generateCSVExport_def generateOFXExport_def)

theorem export_refused_when_not_ready_witness:
  "generateCSVExport demoRuntime sampleTransactions False = None
   \<and> generateOFXExport demoRuntime sampleMetadata sampleTransactions False = None
   \<and> generateCSVExport demoRuntime sampleTransactions True \<noteq> None
   \<and> generateOFXExport demoRuntime sampleMetadata sampleTransactions True \<noteq> None"
  using export_refused_when_not_ready [where R = demoRuntime and ts = sampleTransactions
      and m = sampleMetadata]
  by (simp add: generateCSVExport_def generateOFXExport_def Let_def)

end
